theory Spec2Isabelle
  imports Complex_Main "HOL-Library.Word"
begin

unbundle bit_operations_syntax

section \<open>Terrain generation (js/terrain.js)\<close>

text \<open>
  JavaScript numbers are modelled as \<^typ>\<open>real\<close> (finite values, exact arithmetic);
  numbers that the code only ever holds as integers (rounded blueprint offsets, hotbar
  slots, seeds, loop counters) are \<^typ>\<open>int\<close> or \<^typ>\<open>nat\<close>; the 32-bit
  integer operations of the generator are operations on \<^typ>\<open>32 word\<close>. The
  height sampler is given a second time in double precision (\<open>sampleHeight64\<close>), for
  the one statement that depends on rounding. The rendering objects of three.js are kept
  only as far as the program reads them back.
\<close>

type_synonym vec3 = "real \<times> real \<times> real"

subsection \<open>Seeded PRNG (Mulberry32)\<close>

text \<open>
  \<^verbatim>\<open>mulberry32(seed)\<close> returns a closure over the variable \<^verbatim>\<open>seed\<close>. The closure is
  modelled by its hidden state, a 32-bit word: \<^verbatim>\<open>seed |= 0\<close> is the conversion of the
  integer seed to 32 bits, and every call returns a number and the next state.
\<close>

type_synonym rng = "32 word"

definition mulberry32 :: "int \<Rightarrow> rng" where
  "mulberry32 seed = word_of_int seed"

definition mulberry32_call :: "rng \<Rightarrow> real \<times> rng" where
  "mulberry32_call seed0 =
     (let seed = seed0 + 0x6d2b79f5;
          t = (seed XOR drop_bit 15 seed) * (1 OR seed);
          t = (t + (t XOR drop_bit 7 t) * (61 OR t)) XOR t
      in (real (unat (t XOR drop_bit 14 t)) / 4294967296, seed))"

subsection \<open>fBm noise and the height sampler\<close>

text \<open>
  The 2D noise function comes from the library \<^verbatim>\<open>simplex-noise\<close>
  (\<^verbatim>\<open>createNoise2D(rng)\<close>), which is not part of the repository: it is a parameter
  \<open>noise2D\<close> of every function that uses it, as it is in the source.
\<close>

type_synonym noise = "real \<Rightarrow> real \<Rightarrow> real"

text \<open>
  The loop of \<^verbatim>\<open>fbm\<close>; the first argument after the constants counts the iterations
  that remain, the others are the loop variables \<^verbatim>\<open>value\<close>, \<^verbatim>\<open>amplitude\<close>,
  \<^verbatim>\<open>frequency\<close> and \<^verbatim>\<open>max\<close>.
\<close>

fun fbm_loop ::
  "noise \<Rightarrow> real \<Rightarrow> real \<Rightarrow> real \<Rightarrow> real \<Rightarrow> nat \<Rightarrow> real \<Rightarrow> real \<Rightarrow> real \<Rightarrow> real
     \<Rightarrow> real \<times> real" where
  "fbm_loop noise2D x z lacunarity gain 0 val amplitude frequency mx = (val, mx)"
| "fbm_loop noise2D x z lacunarity gain (Suc n) val amplitude frequency mx =
     fbm_loop noise2D x z lacunarity gain n
       (val + amplitude * noise2D (x * frequency) (z * frequency))
       (amplitude * gain) (frequency * lacunarity) (mx + amplitude)"

definition fbm :: "noise \<Rightarrow> real \<Rightarrow> real \<Rightarrow> nat \<Rightarrow> real \<Rightarrow> real \<Rightarrow> real" where
  "fbm noise2D x z octaves lacunarity gain =
     (case fbm_loop noise2D x z lacunarity gain octaves 0 1 1 0 of
        (val, mx) \<Rightarrow> val / mx)"

text \<open>
  \<^verbatim>\<open>Math.pow(dist, 3)\<close> is the cube; \<^verbatim>\<open>Math.pow(h, 1.8)\<close> is \<open>h powr 1.8\<close>, which
  agrees with JavaScript for \<open>h \<ge> 0\<close> (a negative base gives NaN there, and arises
  only when the noise leaves \<open>[-1, 1]\<close>). The callers pass \<open>halfSize = size / 2 = 100\<close>.
\<close>

definition sampleHeight :: "noise \<Rightarrow> real \<Rightarrow> real \<Rightarrow> real \<Rightarrow> real" where
  "sampleHeight noise2D x z halfSize =
     (let scale = 0.015;
          dx = x / halfSize;
          dz = z / halfSize;
          dist = sqrt (dx * dx + dz * dz);
          falloff = max 0 (1 - dist ^ 3);
          h = fbm noise2D (x * scale) (z * scale) 3 2.0 0.5;
          h = (h + 1) / 2;
          h = h powr 1.8;
          h = h * falloff
      in h)"

subsection \<open>The height sampler in double precision\<close>

text \<open>
  What \<^verbatim>\<open>sampleHeight\<close> returns exactly at the shore depends on rounding, so the sampler
  is given a second time with every operation rounded as IEEE 754 binary64 arithmetic
  rounds it. \<open>fl x\<close> is the double nearest to \<open>x\<close>: \<open>x\<close> is scaled so that its
  significand has 53 bits, rounded to the nearest integer (\<open>rnd_even\<close>, a tie going to
  the even one) and scaled back. The exponent range is not bounded: overflow to
  \<^verbatim>\<open>Infinity\<close> and subnormal numbers are outside the model, and neither arises for
  coordinates of the size of the map. Division, multiplication, addition, subtraction and
  \<^verbatim>\<open>Math.sqrt\<close> are correctly rounded by the standard; \<^verbatim>\<open>Math.pow\<close>, whose accuracy
  the language leaves to the implementation, is taken as correctly rounded as well
  (\<open>Math_pow64\<close>). The literals \<^verbatim>\<open>0.015\<close> and \<^verbatim>\<open>1.8\<close> stand for the doubles nearest
  to them; \<open>1\<close>, \<open>2\<close>, \<open>3\<close>, \<open>2.0\<close> and \<open>0.5\<close> are doubles. The arguments \<open>x\<close>, \<open>z\<close>
  and \<open>halfSize\<close> and the values of \<open>noise2D\<close> are doubles in the program.
\<close>

definition rnd_even :: "real \<Rightarrow> int" where
  "rnd_even r =
     (let f = \<lfloor>r\<rfloor>; d = r - of_int f
      in if d < 1 / 2 then f
         else if 1 / 2 < d then f + 1
         else if even f then f else f + 1)"

definition fl :: "real \<Rightarrow> real" where
  "fl x =
     (if x = 0 then 0
      else
        (let e = \<lfloor>log 2 \<bar>x\<bar>\<rfloor>;
             q = 2 powi (e - 52)
         in of_int (rnd_even (x / q)) * q))"

definition Math_pow64 :: "real \<Rightarrow> real \<Rightarrow> real" where
  "Math_pow64 x y = fl (x powr y)"

fun fbm64_loop ::
  "noise \<Rightarrow> real \<Rightarrow> real \<Rightarrow> real \<Rightarrow> real \<Rightarrow> nat \<Rightarrow> real \<Rightarrow> real \<Rightarrow> real \<Rightarrow> real
     \<Rightarrow> real \<times> real" where
  "fbm64_loop noise2D x z lacunarity gain 0 val amplitude frequency mx = (val, mx)"
| "fbm64_loop noise2D x z lacunarity gain (Suc n) val amplitude frequency mx =
     fbm64_loop noise2D x z lacunarity gain n
       (fl (val + fl (amplitude * noise2D (fl (x * frequency)) (fl (z * frequency)))))
       (fl (amplitude * gain)) (fl (frequency * lacunarity)) (fl (mx + amplitude))"

definition fbm64 :: "noise \<Rightarrow> real \<Rightarrow> real \<Rightarrow> nat \<Rightarrow> real \<Rightarrow> real \<Rightarrow> real" where
  "fbm64 noise2D x z octaves lacunarity gain =
     (case fbm64_loop noise2D x z lacunarity gain octaves 0 1 1 0 of
        (val, mx) \<Rightarrow> fl (val / mx))"

definition sampleHeight64 :: "noise \<Rightarrow> real \<Rightarrow> real \<Rightarrow> real \<Rightarrow> real" where
  "sampleHeight64 noise2D x z halfSize =
     (let scale = fl 0.015;
          dx = fl (x / halfSize);
          dz = fl (z / halfSize);
          dist = fl (sqrt (fl (fl (dx * dx) + fl (dz * dz))));
          falloff = max 0 (fl (1 - Math_pow64 dist 3));
          h = fbm64 noise2D (fl (x * scale)) (fl (z * scale)) 3 2.0 0.5;
          h = fl (fl (h + 1) / 2);
          h = Math_pow64 h (fl 1.8);
          h = fl (h * falloff)
      in h)"

text \<open>
  The local constants \<^verbatim>\<open>dist\<close> and \<^verbatim>\<open>falloff\<close> of \<^verbatim>\<open>sampleHeight\<close>, as functions of
  its arguments.
\<close>

definition dist64 :: "real \<Rightarrow> real \<Rightarrow> real \<Rightarrow> real" where
  "dist64 x z halfSize =
     (let dx = fl (x / halfSize);
          dz = fl (z / halfSize)
      in fl (sqrt (fl (fl (dx * dx) + fl (dz * dz)))))"

definition falloff64 :: "real \<Rightarrow> real \<Rightarrow> real \<Rightarrow> real" where
  "falloff64 x z halfSize = max 0 (fl (1 - Math_pow64 (dist64 x z halfSize) 3))"

subsection \<open>Scatter placement: trees, rocks, flowers\<close>

text \<open>
  A decoration mesh: which shared geometry it shows, and the position, scale and rotation
  the code sets (a new mesh has scale \<open>(1, 1, 1)\<close> and rotation \<open>(0, 0, 0)\<close>). The
  parameter \<^verbatim>\<open>size\<close>, the map extent, is written \<open>msize\<close>.
\<close>

datatype part = Trunk | Foliage | Rock | Stem | Petal nat

record deco =
  deco_part :: part
  deco_position :: vec3
  deco_scale :: vec3
  deco_rotation :: vec3

text \<open>
  Each scatter loop runs \<^verbatim>\<open>count\<close> times; the \<^typ>\<open>nat\<close> argument counts the
  iterations that remain. A sample outside the height band is skipped by
  \<^verbatim>\<open>continue\<close>: the iteration is used up and nothing is added.
\<close>

fun createTrees_loop :: "noise \<Rightarrow> real \<Rightarrow> nat \<Rightarrow> rng \<Rightarrow> deco list \<Rightarrow> deco list \<times> rng" where
  "createTrees_loop noise2D msize 0 rng treeGroup = (treeGroup, rng)"
| "createTrees_loop noise2D msize (Suc n) rng treeGroup =
     (let halfSize = msize / 2;
          (r, rng) = mulberry32_call rng;
          x = (r - 0.5) * msize * 0.85;
          (r, rng) = mulberry32_call rng;
          z = (r - 0.5) * msize * 0.85;
          h = sampleHeight noise2D x z halfSize
      in if h < 0.12 \<or> h > 0.48 then createTrees_loop noise2D msize n rng treeGroup
         else
           (let elevation = h * 30;
                (r, rng) = mulberry32_call rng;
                treeScale = 0.7 + r * 0.8;
                trunk = \<lparr>deco_part = Trunk,
                  deco_position = (x, elevation + 0.75 * treeScale, z),
                  deco_scale = (treeScale, treeScale, treeScale),
                  deco_rotation = (0, 0, 0)\<rparr>;
                (r, rng) = mulberry32_call rng;
                foliage = \<lparr>deco_part = Foliage,
                  deco_position = (x, elevation + 2.2 * treeScale, z),
                  deco_scale = (treeScale, treeScale, treeScale),
                  deco_rotation = (0, r * pi * 2, 0)\<rparr>
            in createTrees_loop noise2D msize n rng (treeGroup @ [trunk, foliage])))"

definition createTrees_count :: "real \<Rightarrow> nat" where
  "createTrees_count r = nat \<lfloor>150 + r * 100\<rfloor>"

definition createTrees :: "noise \<Rightarrow> rng \<Rightarrow> real \<Rightarrow> deco list \<times> rng" where
  "createTrees noise2D rng msize =
     (let (r, rng) = mulberry32_call rng;
          count = createTrees_count r
      in createTrees_loop noise2D msize count rng [])"

fun createRocks_loop :: "noise \<Rightarrow> real \<Rightarrow> nat \<Rightarrow> rng \<Rightarrow> deco list \<Rightarrow> deco list \<times> rng" where
  "createRocks_loop noise2D msize 0 rng rockGroup = (rockGroup, rng)"
| "createRocks_loop noise2D msize (Suc n) rng rockGroup =
     (let halfSize = msize / 2;
          (r, rng) = mulberry32_call rng;
          x = (r - 0.5) * msize * 0.85;
          (r, rng) = mulberry32_call rng;
          z = (r - 0.5) * msize * 0.85;
          h = sampleHeight noise2D x z halfSize
      in if h < 0.42 \<or> h > 0.88 then createRocks_loop noise2D msize n rng rockGroup
         else
           (let elevation = h * 30;
                (r, rng) = mulberry32_call rng;
                s = 0.3 + r * 1.0;
                (r1, rng) = mulberry32_call rng;
                (r2, rng) = mulberry32_call rng;
                (r3, rng) = mulberry32_call rng;
                (r4, rng) = mulberry32_call rng;
                (r5, rng) = mulberry32_call rng;
                (r6, rng) = mulberry32_call rng;
                rock = \<lparr>deco_part = Rock,
                  deco_position = (x, elevation + s * 0.3, z),
                  deco_scale = (s * (0.8 + r1 * 0.4), s * (0.5 + r2 * 0.5), s * (0.8 + r3 * 0.4)),
                  deco_rotation = (r4 * 0.5, r5 * pi * 2, r6 * 0.5)\<rparr>
            in createRocks_loop noise2D msize n rng (rockGroup @ [rock])))"

definition createRocks_count :: "real \<Rightarrow> nat" where
  "createRocks_count r = nat \<lfloor>80 + r * 60\<rfloor>"

definition createRocks :: "noise \<Rightarrow> rng \<Rightarrow> real \<Rightarrow> deco list \<times> rng" where
  "createRocks noise2D rng msize =
     (let (r, rng) = mulberry32_call rng;
          count = createRocks_count r
      in createRocks_loop noise2D msize count rng [])"

text \<open>The petals of one flower head, \<^verbatim>\<open>for (let p = 0; p < petals; p++)\<close>.\<close>

definition flower_petals :: "real \<Rightarrow> real \<Rightarrow> real \<Rightarrow> real \<Rightarrow> nat \<Rightarrow> nat \<Rightarrow> deco list" where
  "flower_petals x z elevation flowerScale colorIdx petals =
     map (\<lambda>p.
        let angle = (real p / real petals) * pi * 2;
            r = 0.06 * flowerScale
        in \<lparr>deco_part = Petal colorIdx,
             deco_position = (x + cos angle * r, elevation + 0.42 * flowerScale, z + sin angle * r),
             deco_scale = (flowerScale, flowerScale, flowerScale),
             deco_rotation = (0, 0, 0)\<rparr>) [0..<petals]"

fun createFlowers_loop :: "noise \<Rightarrow> real \<Rightarrow> nat \<Rightarrow> rng \<Rightarrow> deco list \<Rightarrow> deco list \<times> rng" where
  "createFlowers_loop noise2D msize 0 rng flowerGroup = (flowerGroup, rng)"
| "createFlowers_loop noise2D msize (Suc n) rng flowerGroup =
     (let halfSize = msize / 2;
          (r, rng) = mulberry32_call rng;
          x = (r - 0.5) * msize * 0.85;
          (r, rng) = mulberry32_call rng;
          z = (r - 0.5) * msize * 0.85;
          h = sampleHeight noise2D x z halfSize
      in if h < 0.13 \<or> h > 0.43 then createFlowers_loop noise2D msize n rng flowerGroup
         else
           (let elevation = h * 30;
                (r, rng) = mulberry32_call rng;
                flowerScale = 0.6 + r * 0.8;
                (r, rng) = mulberry32_call rng;
                colorIdx = nat \<lfloor>r * 6\<rfloor>;
                stem = \<lparr>deco_part = Stem,
                  deco_position = (x, elevation + 0.2 * flowerScale, z),
                  deco_scale = (flowerScale, flowerScale, flowerScale),
                  deco_rotation = (0, 0, 0)\<rparr>;
                (r, rng) = mulberry32_call rng;
                petals = 3 + nat \<lfloor>r * 3\<rfloor>
            in createFlowers_loop noise2D msize n rng
                 (flowerGroup @ [stem]
                    @ flower_petals x z elevation flowerScale colorIdx petals)))"

definition createFlowers_count :: "real \<Rightarrow> nat" where
  "createFlowers_count r = nat \<lfloor>200 + r * 150\<rfloor>"

definition createFlowers :: "noise \<Rightarrow> rng \<Rightarrow> real \<Rightarrow> deco list \<times> rng" where
  "createFlowers noise2D rng msize =
     (let (r, rng) = mulberry32_call rng;
          count = createFlowers_count r
      in createFlowers_loop noise2D msize count rng [])"

text \<open>
  The placement contract of a decoration, as predicates on a mesh: its sample
  \<open>(x, z)\<close> lies within 0.85 of the map extent (\<open>\<bar>x\<bar>, \<bar>z\<bar> \<le> 0.425 * size\<close>) and has a
  height inside the band of the kind; the mesh stands at elevation \<open>height * 30\<close> plus
  the offset of its kind, which grows with the random scale \<open>s\<close> of the instance. The
  petals of a flower sit on a circle of radius \<open>0.06 * s\<close> around the sample.
  \<open>instances p\<close> counts the meshes of part \<open>p\<close>: one trunk per tree, one stem per flower.
\<close>

definition sample_ok :: "noise \<Rightarrow> real \<Rightarrow> real \<Rightarrow> real \<Rightarrow> real \<Rightarrow> real \<Rightarrow> bool" where
  "sample_ok noise2D msize lo hi x z \<longleftrightarrow>
     \<bar>x\<bar> \<le> 0.425 * \<bar>msize\<bar> \<and> \<bar>z\<bar> \<le> 0.425 * \<bar>msize\<bar>
     \<and> lo \<le> sampleHeight noise2D x z (msize / 2)
     \<and> sampleHeight noise2D x z (msize / 2) \<le> hi"

definition tree_mesh_ok :: "noise \<Rightarrow> real \<Rightarrow> deco \<Rightarrow> bool" where
  "tree_mesh_ok noise2D msize d \<longleftrightarrow>
     (case deco_position d of (x, y, z) \<Rightarrow>
        sample_ok noise2D msize 0.12 0.48 x z
        \<and> (let s = fst (deco_scale d)
           in 0.7 \<le> s \<and> s < 1.5
              \<and> (deco_part d = Trunk
                    \<and> y = sampleHeight noise2D x z (msize / 2) * 30 + 0.75 * s
                  \<or> deco_part d = Foliage
                    \<and> y = sampleHeight noise2D x z (msize / 2) * 30 + 2.2 * s)))"

definition rock_mesh_ok :: "noise \<Rightarrow> real \<Rightarrow> deco \<Rightarrow> bool" where
  "rock_mesh_ok noise2D msize d \<longleftrightarrow>
     deco_part d = Rock
     \<and> (case deco_position d of (x, y, z) \<Rightarrow>
          sample_ok noise2D msize 0.42 0.88 x z
          \<and> (\<exists>s. 0.3 \<le> s \<and> s < 1.3
                 \<and> y = sampleHeight noise2D x z (msize / 2) * 30 + s * 0.3))"

definition flower_mesh_ok :: "noise \<Rightarrow> real \<Rightarrow> deco \<Rightarrow> bool" where
  "flower_mesh_ok noise2D msize d \<longleftrightarrow>
     (let s = fst (deco_scale d)
      in 0.6 \<le> s \<and> s < 1.4
         \<and> (\<exists>x z a. sample_ok noise2D msize 0.13 0.43 x z
               \<and> (deco_part d = Stem
                     \<and> deco_position d
                         = (x, sampleHeight noise2D x z (msize / 2) * 30 + 0.2 * s, z)
                   \<or> (\<exists>c < 6. deco_part d = Petal c)
                     \<and> deco_position d
                         = (x + cos a * (0.06 * s),
                            sampleHeight noise2D x z (msize / 2) * 30 + 0.42 * s,
                            z + sin a * (0.06 * s)))))"

definition instances :: "part \<Rightarrow> deco list \<Rightarrow> nat" where
  "instances p ds = length (filter (\<lambda>d. deco_part d = p) ds)"

subsection \<open>Voxelizer\<close>



type_synonym voxel = "nat \<times> real \<times> real \<times> real"




type_synonym positions = "nat \<Rightarrow> real list"

definition push_voxel :: "positions \<Rightarrow> voxel \<Rightarrow> positions" where
  "push_voxel positions v =
     (case v of (t, x, y, z) \<Rightarrow> positions(t := positions t @ [x, y, z]))"








subsection \<open>The landscape\<close>

text \<open>
  \<^verbatim>\<open>generateLandscape(seed)\<close> seeds the generator, lets the noise library draw its
  permutation table from it (\<open>createNoise2D\<close>, a parameter: it returns the noise function
  and the generator state it leaves) and builds the decorations in a fixed order. The
  terrain mesh, water, sky and the later passes (chickens, clouds) are display objects
  that no property below reads; they come after the passes kept here in the generator's
  stream or do not use it.
\<close>

record landscape =
  ls_noise2D :: noise
  ls_size :: real
  ls_trees :: "deco list"
  ls_rocks :: "deco list"
  ls_flowers :: "deco list"

definition generateLandscape :: "(rng \<Rightarrow> noise \<times> rng) \<Rightarrow> int \<Rightarrow> landscape" where
  "generateLandscape createNoise2D seed =
     (let rng = mulberry32 seed;
          (noise2D, rng) = createNoise2D rng;
          msize = 200;
          (trees, rng) = createTrees noise2D rng msize;
          (rocks, rng) = createRocks noise2D rng msize;
          (flowers, rng) = createFlowers noise2D rng msize
      in \<lparr>ls_noise2D = noise2D, ls_size = msize, ls_trees = trees, ls_rocks = rocks,
           ls_flowers = flowers\<rparr>)"

section \<open>Block world and blueprints (js/app.js)\<close>

text \<open>
  \<^verbatim>\<open>blockKey(x, y, z)\<close> builds the string \<^verbatim>\<open>`${x},${y},${z}`\<close>. Number-to-string
  conversion is injective on finite numbers (\<^verbatim>\<open>-0\<close> and \<^verbatim>\<open>0\<close> both print as
  \<^verbatim>\<open>0\<close> and are the same real), so the key is modelled as the triple itself.
\<close>

type_synonym key = "real \<times> real \<times> real"

definition blockKey :: "real \<Rightarrow> real \<Rightarrow> real \<Rightarrow> key" where
  "blockKey x y z = (x, y, z)"

definition snapToGrid :: "real \<Rightarrow> real" where
  "snapToGrid v = of_int \<lfloor>v\<rfloor> + 0.5"

text \<open>A placed block: \<^verbatim>\<open>new THREE.Mesh(blockGeo, blockMaterials[selectedSlot])\<close>.\<close>

record mesh =
  mesh_material :: int
  mesh_position :: vec3
  mesh_blockKey :: key

text \<open>An entry of a blueprint, \<^verbatim>\<open>{x, y, z, type}\<close>.\<close>

record block =
  b_x :: int
  b_y :: int
  b_z :: int
  b_type :: int

text \<open>The ghost group of a blueprint: its position and one ghost per block.\<close>

record ghost =
  ghost_material :: int
  ghost_position :: vec3

record bgroup =
  group_position :: vec3
  group_children :: "ghost list"

text \<open>What a ray can hit: a placed block (\<^verbatim>\<open>userData.isBlock\<close>) or the terrain mesh.\<close>

datatype object3d = Block mesh | Terrain

text \<open>
  The mutable globals of the application module, as one record. The camera, the
  controls, the lights and the DOM elements are left out: the functions below write to
  them but never read them back into the fields kept here.
\<close>

record app =
  selectedSlot :: int
  blockGroup :: "mesh list"
  placedBlocks :: "key \<rightharpoonup> mesh"
  blueprintBlocks :: "block list"
  blueprintGroup :: "bgroup option"
  blueprintRotation :: nat
  blueprintActive :: bool
  fpMode :: bool
  currentLandscape :: "landscape option"
  currentSeed :: "int option"

subsection \<open>Placing and removing single blocks\<close>

definition placeBlock :: "real \<Rightarrow> real \<Rightarrow> real \<Rightarrow> app \<Rightarrow> app" where
  "placeBlock gx gy gz st =
     (let k = blockKey gx gy gz
      in if placedBlocks st k \<noteq> None then st
         else
           (let m = \<lparr>mesh_material = selectedSlot st, mesh_position = (gx, gy, gz),
                      mesh_blockKey = k\<rparr>
            in st\<lparr>blockGroup := blockGroup st @ [m],
                  placedBlocks := (placedBlocks st)(k \<mapsto> m)\<rparr>))"

text \<open>
  \<^verbatim>\<open>removeBlock(mesh)\<close>: the argument may be \<^verbatim>\<open>null\<close> or an object that is not a
  block. \<^verbatim>\<open>blockGroup.remove\<close> takes the mesh out of the children by identity; the
  children have pairwise different keys, so that is the removal of the equal element.
\<close>

definition removeBlock :: "object3d option \<Rightarrow> app \<Rightarrow> app" where
  "removeBlock obj st =
     (case obj of
        None \<Rightarrow> st
      | Some Terrain \<Rightarrow> st
      | Some (Block m) \<Rightarrow>
          st\<lparr>blockGroup := remove1 m (blockGroup st),
             placedBlocks := (placedBlocks st)(mesh_blockKey m := None)\<rparr>)"

definition clearAllBlocks :: "app \<Rightarrow> app" where
  "clearAllBlocks st = st\<lparr>blockGroup := [], placedBlocks := Map.empty\<rparr>"

definition BLOCK_TYPES_length :: int where
  "BLOCK_TYPES_length = 6"

text \<open>\<^verbatim>\<open>THREE.MathUtils.clamp(value, min, max)\<close> is \<^verbatim>\<open>Math.max(min, Math.min(max, value))\<close>.\<close>

definition selectSlot :: "int \<Rightarrow> app \<Rightarrow> app" where
  "selectSlot idx st = st\<lparr>selectedSlot := max 0 (min (BLOCK_TYPES_length - 1) idx)\<rparr>"

subsection \<open>Blueprints\<close>

definition rotateBlocksCW :: "block list \<Rightarrow> block list" where
  "rotateBlocksCW blocks =
     map (\<lambda>b. \<lparr>b_x = - b_z b, b_y = b_y b, b_z = b_x b, b_type = b_type b\<rparr>) blocks"

text \<open>The loop \<^verbatim>\<open>for (let i = 0; i < blueprintRotation; i++)\<close>, counting what remains.\<close>

fun getRotatedBlocks_loop :: "nat \<Rightarrow> block list \<Rightarrow> block list" where
  "getRotatedBlocks_loop 0 blocks = blocks"
| "getRotatedBlocks_loop (Suc n) blocks = getRotatedBlocks_loop n (rotateBlocksCW blocks)"

definition getRotatedBlocks :: "app \<Rightarrow> block list" where
  "getRotatedBlocks st = getRotatedBlocks_loop (blueprintRotation st) (blueprintBlocks st)"

definition createBlueprintGroup :: "block list \<Rightarrow> bgroup" where
  "createBlueprintGroup blocks =
     \<lparr>group_position = (0, 0, 0),
      group_children =
        map (\<lambda>b. \<lparr>ghost_material = b_type b,
                    ghost_position = (of_int (b_x b) + 0.5, of_int (b_y b) + 0.5,
                                      of_int (b_z b) + 0.5)\<rparr>) blocks\<rparr>"

definition rebuildBlueprintGroup :: "app \<Rightarrow> app" where
  "rebuildBlueprintGroup st =
     (if \<not> blueprintActive st then st
      else
        (let pos = (case blueprintGroup st of None \<Rightarrow> (0, 0, 0) | Some g \<Rightarrow> group_position g);
             rotated = getRotatedBlocks st
         in st\<lparr>blueprintGroup := Some ((createBlueprintGroup rotated)\<lparr>group_position := pos\<rparr>)\<rparr>))"

definition enterFPMode :: "app \<Rightarrow> app" where
  "enterFPMode st = st\<lparr>fpMode := True\<rparr>"

definition activateBlueprint :: "block list \<Rightarrow> app \<Rightarrow> app" where
  "activateBlueprint blocks st0 =
     (let st = st0\<lparr>blueprintBlocks := blocks, blueprintRotation := 0, blueprintActive := True\<rparr>;
          st = (if \<not> fpMode st then enterFPMode st else st);
          rotated = getRotatedBlocks st
      in st\<lparr>blueprintGroup := Some (createBlueprintGroup rotated)\<rparr>)"

definition cancelBlueprint :: "app \<Rightarrow> app" where
  "cancelBlueprint st =
     (if \<not> blueprintActive st then st
      else st\<lparr>blueprintActive := False, blueprintGroup := None, blueprintBlocks := [],
              blueprintRotation := 0\<rparr>)"

text \<open>
  The loop of \<^verbatim>\<open>placeBlueprint\<close> over the rotated blocks: each step overwrites
  \<^verbatim>\<open>selectedSlot\<close> with the block's type and calls \<^verbatim>\<open>placeBlock\<close>.
\<close>

fun placeBlueprint_loop :: "vec3 \<Rightarrow> block list \<Rightarrow> app \<Rightarrow> app" where
  "placeBlueprint_loop origin [] st = st"
| "placeBlueprint_loop origin (b # rotated) st =
     (case origin of (ox, oy, oz) \<Rightarrow>
        (let wx = ox + of_int (b_x b) + 0.5;
             wy = oy + of_int (b_y b) + 0.5;
             wz = oz + of_int (b_z b) + 0.5;
             st = st\<lparr>selectedSlot := b_type b\<rparr>;
             st = placeBlock wx wy wz st
         in placeBlueprint_loop origin rotated st))"

definition placeBlueprint :: "app \<Rightarrow> app" where
  "placeBlueprint st0 =
     (if \<not> blueprintActive st0 \<or> blueprintGroup st0 = None then st0
      else
        (let rotated = getRotatedBlocks st0;
             origin = group_position (the (blueprintGroup st0));
             savedSlot = selectedSlot st0;
             st = placeBlueprint_loop origin rotated st0;
             st = st\<lparr>selectedSlot := savedSlot\<rparr>
         in cancelBlueprint st))"

subsection \<open>Regeneration\<close>

definition exitFPMode :: "app \<Rightarrow> app" where
  "exitFPMode st = cancelBlueprint (st\<lparr>fpMode := False\<rparr>)"

definition disposeLandscape :: "app \<Rightarrow> app" where
  "disposeLandscape st =
     (case currentLandscape st of None \<Rightarrow> st | Some l \<Rightarrow> st\<lparr>currentLandscape := None\<rparr>)"

text \<open>
  \<^verbatim>\<open>generate(seed)\<close>: the argument may be missing (\<open>None\<close>), in which case the seed
  is drawn from \<^verbatim>\<open>Math.random()\<close>, whose value is the parameter \<open>random\<close>.
\<close>

definition generate :: "(rng \<Rightarrow> noise \<times> rng) \<Rightarrow> real \<Rightarrow> int option \<Rightarrow> app \<Rightarrow> app" where
  "generate createNoise2D random seed0 st0 =
     (let seed = (case seed0 of None \<Rightarrow> \<lfloor>random * 2147483647\<rfloor> | Some s \<Rightarrow> s);
          st = st0\<lparr>currentSeed := Some seed\<rparr>;
          st = (if fpMode st then exitFPMode st else st);
          st = disposeLandscape st;
          st = clearAllBlocks st
      in st\<lparr>currentLandscape := Some (generateLandscape createNoise2D seed)\<rparr>)"

subsection \<open>Seed input\<close>

text \<open>
  A JavaScript string is a sequence of 16-bit code units; \<^verbatim>\<open>charCodeAt\<close> reads one.
  \<open>utf16\<close> writes an ASCII literal as such a string.
\<close>

type_synonym js_string = "16 word list"

definition utf16 :: "string \<Rightarrow> js_string" where
  "utf16 s = map of_char s"

text \<open>The code units that \<^verbatim>\<open>trim\<close>, \<^verbatim>\<open>parseInt\<close> and the regular expression class
  \<^verbatim>\<open>\s\<close> treat as white space (WhiteSpace and LineTerminator of ECMAScript).\<close>

definition isWhiteSpace :: "16 word \<Rightarrow> bool" where
  "isWhiteSpace c \<longleftrightarrow>
     c \<in> {0x9, 0xA, 0xB, 0xC, 0xD, 0x20, 0xA0, 0x1680, 0x2028, 0x2029, 0x202F, 0x205F,
          0x3000, 0xFEFF} \<or> (0x2000 \<le> c \<and> c \<le> 0x200A)"

definition trim :: "js_string \<Rightarrow> js_string" where
  "trim s = rev (dropWhile isWhiteSpace (rev (dropWhile isWhiteSpace s)))"

definition isDigit :: "16 word \<Rightarrow> bool" where
  "isDigit c \<longleftrightarrow> 0x30 \<le> c \<and> c \<le> 0x39"

definition digits_value :: "js_string \<Rightarrow> int" where
  "digits_value ds = foldl (\<lambda>n c. 10 * n + (uint c - 0x30)) 0 ds"

text \<open>
  \<^verbatim>\<open>parseInt(val, 10)\<close>: leading white space, an optional sign, then the longest
  prefix of decimal digits; \<open>None\<close> is NaN (no digit). The value is the exact integer
  (JavaScript rounds it to a double beyond \<open>2^53\<close>).
\<close>

definition parseInt :: "js_string \<Rightarrow> int option" where
  "parseInt s =
     (let s1 = dropWhile isWhiteSpace s;
          (sign, s2) =
            (case s1 of
               [] \<Rightarrow> (1, s1)
             | c # r \<Rightarrow> if c = 0x2D then (- 1, r) else if c = 0x2B then (1, r) else (1, s1));
          ds = takeWhile isDigit s2
      in if ds = [] then None else Some (sign * digits_value ds))"

text \<open>
  The hash loop of \<^verbatim>\<open>applySeedInput\<close>. \<^verbatim>\<open>hash\<close> is a 32-bit integer throughout:
  \<^verbatim>\<open>hash << 5\<close> wraps, the subtraction and the addition are exact on numbers below
  \<open>2^53\<close>, and \<^verbatim>\<open>| 0\<close> wraps the result to 32 bits again, which is word arithmetic.
\<close>

definition seed_hash :: "js_string \<Rightarrow> 32 word" where
  "seed_hash val = foldl (\<lambda>hash c. (push_bit 5 hash - hash) + ucast c) 0 val"

text \<open>\<^verbatim>\<open>applySeedInput\<close> reads \<^verbatim>\<open>seedInput.value\<close>, the parameter \<open>input\<close>.
  \<^verbatim>\<open>Math.abs\<close> works on the number the 32-bit hash denotes, read as signed.\<close>

definition applySeedInput ::
  "(rng \<Rightarrow> noise \<times> rng) \<Rightarrow> real \<Rightarrow> js_string \<Rightarrow> app \<Rightarrow> app" where
  "applySeedInput createNoise2D random input st =
     (let val = trim input
      in if val = [] then st
         else
           (case parseInt val of
              None \<Rightarrow>
                (let hash = seed_hash val
                 in generate createNoise2D random (Some \<bar>sint hash\<bar>) st)
            | Some parsed \<Rightarrow> generate createNoise2D random (Some parsed) st))"

text \<open>
  The rolling hash in the words of the specification: \<open>hash = hash * 31 + charCode\<close>
  over the characters, wrapped to a signed 32-bit integer at every step, then the
  absolute value.
\<close>

definition wrap32 :: "int \<Rightarrow> int" where
  "wrap32 n = (n + 2 ^ 31) mod 2 ^ 32 - 2 ^ 31"

definition spec_rolling_hash :: "js_string \<Rightarrow> int" where
  "spec_rolling_hash val = foldl (\<lambda>hash c. wrap32 (hash * 31 + uint c)) 0 val"

definition spec_seed_of_string :: "js_string \<Rightarrow> int" where
  "spec_seed_of_string val = \<bar>spec_rolling_hash val\<bar>"

subsection \<open>Blueprint ingestion\<close>

text \<open>
  The values \<^verbatim>\<open>JSON.parse\<close> can return. A number is a finite real (a literal beyond
  the range of a double is outside the model); an object is the table of its properties,
  one entry per name.
\<close>

datatype json =
    JNull
  | JBool bool
  | JNum real
  | JStr js_string
  | JArr "json list"
  | JObj "(js_string \<times> json) list"

datatype error =
    ParseFailed
  | NoBlocks
  | NoValidBlocks
  | TypeError

text \<open>
  Reading a property \<^verbatim>\<open>b.x\<close>: on \<^verbatim>\<open>null\<close> it throws a TypeError; on an object it
  is the property's value or \<^verbatim>\<open>undefined\<close> (\<open>None\<close>); numbers, booleans, strings and
  arrays have none of the properties \<^verbatim>\<open>x\<close>, \<^verbatim>\<open>y\<close>, \<^verbatim>\<open>z\<close>, \<^verbatim>\<open>type\<close> read here.
\<close>

fun get_prop :: "json \<Rightarrow> js_string \<Rightarrow> error + json option" where
  "get_prop JNull name = Inl TypeError"
| "get_prop (JObj props) name = Inr (map_of props name)"
| "get_prop b name = Inr None"

text \<open>\<^verbatim>\<open>typeof v === 'number'\<close>, giving the number.\<close>

fun as_number :: "json option \<Rightarrow> real option" where
  "as_number (Some (JNum v)) = Some v"
| "as_number v = None"

text \<open>\<^verbatim>\<open>Math.round\<close>: the nearest integer, a tie going up.\<close>

definition Math_round :: "real \<Rightarrow> int" where
  "Math_round v = \<lfloor>v + 1 / 2\<rfloor>"

text \<open>
  The body of the validation loop for one entry \<open>b\<close>: \<open>Inl\<close> when a property read
  throws, \<open>Inr None\<close> for \<^verbatim>\<open>continue\<close>, \<open>Inr (Some entry)\<close> for the entry pushed.
\<close>

definition validate_entry :: "json \<Rightarrow> error + block option" where
  "validate_entry b =
     (case get_prop b (utf16 ''x'') of
        Inl e \<Rightarrow> Inl e
      | Inr vx \<Rightarrow>
     (case get_prop b (utf16 ''y'') of
        Inl e \<Rightarrow> Inl e
      | Inr vy \<Rightarrow>
     (case get_prop b (utf16 ''z'') of
        Inl e \<Rightarrow> Inl e
      | Inr vz \<Rightarrow>
     (case (as_number vx, as_number vy, as_number vz) of
        (Some nx, Some ny, Some nz) \<Rightarrow>
          (case get_prop b (utf16 ''type'') of
             Inl e \<Rightarrow> Inl e
           | Inr vt \<Rightarrow>
               (let type = (case as_number vt of
                              Some t \<Rightarrow> max 0 (min 5 (Math_round t))
                            | None \<Rightarrow> 2)
                in Inr (Some \<lparr>b_x = Math_round nx, b_y = Math_round ny,
                               b_z = Math_round nz, b_type = type\<rparr>)))
      | _ \<Rightarrow> Inr None))))"

text \<open>
  The loop \<^verbatim>\<open>for (const b of blocks)\<close> with its \<^verbatim>\<open>continue\<close> and \<^verbatim>\<open>break\<close>. A
  TypeError thrown by a property read leaves the loop and the function through the
  enclosing \<^verbatim>\<open>catch\<close>, which reports it and returns \<^verbatim>\<open>null\<close>.
\<close>

fun validate_loop :: "json list \<Rightarrow> block list \<Rightarrow> error + block list" where
  "validate_loop [] validated = Inr validated"
| "validate_loop (b # blocks) validated =
     (case validate_entry b of
        Inl e \<Rightarrow> Inl e
      | Inr None \<Rightarrow> validate_loop blocks validated
      | Inr (Some entry) \<Rightarrow>
          (let validated = validated @ [entry]
           in if length validated \<ge> 500 then Inr validated
              else validate_loop blocks validated))"

text \<open>
  The valid entries of a block list in the words of the specification: the entries with
  numeric coordinates, in order, each with rounded coordinates and clamped material.
\<close>

fun valid_entries :: "json list \<Rightarrow> block list" where
  "valid_entries [] = []"
| "valid_entries (b # bs) =
     (case validate_entry b of
        Inr (Some entry) \<Rightarrow> entry # valid_entries bs
      | _ \<Rightarrow> valid_entries bs)"

text \<open>
  The part of \<^verbatim>\<open>generateStructure\<close> after the parse:
  \<^verbatim>\<open>!Array.isArray(blocks) || blocks.length === 0\<close>, the loop, and the final check.
\<close>

definition validateBlocks :: "json \<Rightarrow> error + block list" where
  "validateBlocks blocks =
     (case blocks of
        JArr bs \<Rightarrow>
          if bs = [] then Inl NoBlocks
          else
            (case validate_loop bs [] of
               Inl e \<Rightarrow> Inl e
             | Inr validated \<Rightarrow>
                 if validated = [] then Inl NoValidBlocks else Inr validated)
      | _ \<Rightarrow> Inl NoBlocks)"

text \<open>
  The permissive parse. \<^verbatim>\<open>JSON.parse\<close> is the parameter \<open>JSON_parse\<close>
  (\<open>None\<close>: it throws). The regular expression
  \<^verbatim>\<open>/```(?:json)?\s*([\s\S]*?)```/i\<close> matches from the first run of three backticks,
  skips an optional \<^verbatim>\<open>json\<close> in any case, and captures up to the next three
  backticks; if none follows there is no match at all. White space at the start of the
  capture is taken by \<^verbatim>\<open>\s*\<close>.
\<close>

definition fence :: js_string where
  "fence = [0x60, 0x60, 0x60]"

fun after_fence :: "js_string \<Rightarrow> js_string option" where
  "after_fence [] = None"
| "after_fence (c # s) =
     (if take 3 (c # s) = fence then Some (drop 3 (c # s)) else after_fence s)"

fun before_fence :: "js_string \<Rightarrow> js_string option" where
  "before_fence [] = None"
| "before_fence (c # s) =
     (if take 3 (c # s) = fence then Some []
      else map_option ((#) c) (before_fence s))"

definition is_json_word :: "js_string \<Rightarrow> bool" where
  "is_json_word w \<longleftrightarrow>
     length w = 4 \<and> w ! 0 \<in> {0x6A, 0x4A} \<and> w ! 1 \<in> {0x73, 0x53}
       \<and> w ! 2 \<in> {0x6F, 0x4F} \<and> w ! 3 \<in> {0x6E, 0x4E}"

definition fenceMatch :: "js_string \<Rightarrow> js_string option" where
  "fenceMatch text =
     (case after_fence text of
        None \<Rightarrow> None
      | Some rest \<Rightarrow>
          (let rest = (if is_json_word (take 4 rest) then drop 4 rest else rest)
           in before_fence (dropWhile isWhiteSpace rest)))"

text \<open>\<^verbatim>\<open>text.indexOf(c)\<close> and \<^verbatim>\<open>text.lastIndexOf(c)\<close> for one code unit; \<open>-1\<close> if absent.\<close>

fun indexOf :: "js_string \<Rightarrow> 16 word \<Rightarrow> int" where
  "indexOf [] c = - 1"
| "indexOf (d # s) c =
     (if d = c then 0 else (let i = indexOf s c in if i = - 1 then - 1 else i + 1))"

definition lastIndexOf :: "js_string \<Rightarrow> 16 word \<Rightarrow> int" where
  "lastIndexOf s c =
     (let i = indexOf (rev s) c in if i = - 1 then - 1 else int (length s) - 1 - i)"

text \<open>\<^verbatim>\<open>text.slice(a, b)\<close> for \<open>0 \<le> a\<close> and \<open>0 \<le> b\<close>.\<close>

definition slice :: "js_string \<Rightarrow> int \<Rightarrow> int \<Rightarrow> js_string" where
  "slice s a b = drop (nat a) (take (nat b) s)"

text \<open>\<^verbatim>\<open>!blocks\<close>: \<^verbatim>\<open>undefined\<close> (\<open>None\<close>) and the falsy values.\<close>

fun falsy :: "json option \<Rightarrow> bool" where
  "falsy None = True"
| "falsy (Some JNull) = True"
| "falsy (Some (JBool b)) = (\<not> b)"
| "falsy (Some (JNum v)) = (v = 0)"
| "falsy (Some (JStr s)) = (s = [])"
| "falsy (Some v) = False"

definition extractBlocks :: "(js_string \<Rightarrow> json option) \<Rightarrow> js_string \<Rightarrow> json option" where
  "extractBlocks JSON_parse text =
     (case JSON_parse (trim text) of
        Some blocks \<Rightarrow> Some blocks
      | None \<Rightarrow>
          (let blocks =
                 (case fenceMatch text of
                    Some inner \<Rightarrow> JSON_parse (trim inner)
                  | None \<Rightarrow> None);
               blocks =
                 (if falsy blocks then
                    (let bracketStart = indexOf text 0x5B;
                         bracketEnd = lastIndexOf text 0x5D
                     in if bracketStart \<noteq> - 1 \<and> bracketEnd > bracketStart then
                          (case JSON_parse (slice text bracketStart (bracketEnd + 1)) of
                             Some v \<Rightarrow> Some v
                           | None \<Rightarrow> blocks)
                        else blocks)
                  else blocks)
           in if falsy blocks then None else blocks))"

text \<open>
  \<^verbatim>\<open>generateStructure\<close> from the response text on (the request itself is the
  network layer): \<open>Inl\<close> is \<^verbatim>\<open>showAiError(...); return null\<close>, \<open>Inr\<close> the validated
  list.
\<close>

definition generateStructure :: "(js_string \<Rightarrow> json option) \<Rightarrow> js_string \<Rightarrow> error + block list" where
  "generateStructure JSON_parse text =
     (case extractBlocks JSON_parse text of
        None \<Rightarrow> Inl ParseFailed
      | Some blocks \<Rightarrow> validateBlocks blocks)"

text \<open>The click handler of the Build button, once the response text is there.\<close>

definition aiBuild :: "(js_string \<Rightarrow> json option) \<Rightarrow> js_string \<Rightarrow> app \<Rightarrow> app" where
  "aiBuild JSON_parse text st =
     (case generateStructure JSON_parse text of
        Inl e \<Rightarrow> st
      | Inr blocks \<Rightarrow> activateBlueprint blocks st)"

subsection \<open>Initial state and stand-ins for the noise library\<close>

text \<open>The globals as the module initialises them, before the first \<^verbatim>\<open>generate()\<close>.\<close>

definition init_app :: app where
  "init_app =
     \<lparr>selectedSlot = 0, blockGroup = [], placedBlocks = Map.empty, blueprintBlocks = [],
      blueprintGroup = None, blueprintRotation = 0, blueprintActive = False, fpMode = False,
      currentLandscape = None, currentSeed = None\<rparr>"

text \<open>
  Concrete arguments for the parameters that stand for the noise library, used where a
  statement is evaluated at an explicit input: a noise function of constant value, and a
  \<open>createNoise2D\<close> that returns it without drawing from the generator.
\<close>

definition const_noise :: "real \<Rightarrow> noise" where
  "const_noise c x z = c"

definition const_createNoise2D :: "real \<Rightarrow> rng \<Rightarrow> noise \<times> rng" where
  "const_createNoise2D c rng = (const_noise c, rng)"

text \<open>A blueprint of two blocks, and a block-list entry as \<^verbatim>\<open>JSON.parse\<close> returns it.\<close>

definition demo_blueprint :: "block list" where
  "demo_blueprint =
     [\<lparr>b_x = 0, b_y = 0, b_z = 0, b_type = 2\<rparr>, \<lparr>b_x = 1, b_y = 0, b_z = 0, b_type = 3\<rparr>]"

definition demo_entry :: json where
  "demo_entry =
     JObj [(utf16 ''x'', JNum 0), (utf16 ''y'', JNum 0), (utf16 ''z'', JNum 0),
           (utf16 ''type'', JNum 2)]"

section \<open>Properties of the block world\<close>

lemma rotateBlocksCW_four:
  "rotateBlocksCW (rotateBlocksCW (rotateBlocksCW (rotateBlocksCW blocks))) = blocks"
  by (induction blocks) (simp_all add: rotateBlocksCW_def)

lemma getRotatedBlocks_loop_funpow:
  "getRotatedBlocks_loop n blocks = (rotateBlocksCW ^^ n) blocks"
  by (induction n arbitrary: blocks) (simp_all add: funpow_swap1)

text \<open>
  C2. One rotation step maps every offset \<open>(dx, dy, dz)\<close> to \<open>(- dz, dy, dx)\<close> and keeps
  its material; four steps, and \<^verbatim>\<open>getRotatedBlocks\<close> run with a rotation count of four,
  give back the original list, entry by entry.
\<close>

theorem rotateBlocksCW_order_four:
  "map (\<lambda>b. (b_x b, b_y b, b_z b, b_type b)) (rotateBlocksCW blocks)
     = map (\<lambda>b. (- b_z b, b_y b, b_x b, b_type b)) blocks
   \<and> (rotateBlocksCW ^^ 4) blocks = blocks
   \<and> getRotatedBlocks_loop 4 blocks = blocks"
proof -
  have step: "map (\<lambda>b. (b_x b, b_y b, b_z b, b_type b)) (rotateBlocksCW blocks)
      = map (\<lambda>b. (- b_z b, b_y b, b_x b, b_type b)) blocks"
    by (simp add: rotateBlocksCW_def)
  have four: "(rotateBlocksCW ^^ 4) blocks = blocks"
    by (simp add: eval_nat_numeral rotateBlocksCW_four)
  from step four show ?thesis
    by (simp add: getRotatedBlocks_loop_funpow)
qed

lemma placeBlock_occupied:
  "placedBlocks st (blockKey gx gy gz) \<noteq> None \<Longrightarrow> placeBlock gx gy gz st = st"
  by (simp add: placeBlock_def)

lemma placeBlock_fresh:
  "placedBlocks st (blockKey gx gy gz) = None \<Longrightarrow>
     placedBlocks (placeBlock gx gy gz st) (blockKey gx gy gz)
       = Some \<lparr>mesh_material = selectedSlot st, mesh_position = (gx, gy, gz),
                 mesh_blockKey = blockKey gx gy gz\<rparr>"
  by (simp add: placeBlock_def Let_def)

lemma placeBlock_makes_occupied:
  "placedBlocks (placeBlock gx gy gz st) (blockKey gx gy gz) \<noteq> None"
  by (simp add: placeBlock_def Let_def)

lemma placeBlock_frame:
  "selectedSlot (placeBlock gx gy gz st) = selectedSlot st"
  "blueprintActive (placeBlock gx gy gz st) = blueprintActive st"
  "blueprintGroup (placeBlock gx gy gz st) = blueprintGroup st"
  by (simp_all add: placeBlock_def Let_def)

text \<open>
  C7. Place a block at a cell with material \<open>m1\<close> selected, then place at the same cell
  with \<open>m2\<close> selected. The second call changes neither the store nor the children of
  the block group, whatever the materials; and if the cell was free before the first
  call, it holds \<open>m1\<close> afterwards.
\<close>

theorem placeBlock_first_write_wins:
  "placedBlocks (placeBlock gx gy gz ((placeBlock gx gy gz (st\<lparr>selectedSlot := m1\<rparr>))\<lparr>selectedSlot := m2\<rparr>))
     = placedBlocks (placeBlock gx gy gz (st\<lparr>selectedSlot := m1\<rparr>))
   \<and> blockGroup (placeBlock gx gy gz ((placeBlock gx gy gz (st\<lparr>selectedSlot := m1\<rparr>))\<lparr>selectedSlot := m2\<rparr>))
     = blockGroup (placeBlock gx gy gz (st\<lparr>selectedSlot := m1\<rparr>))
   \<and> (placedBlocks st (blockKey gx gy gz) = None \<longrightarrow>
        map_option mesh_material
          (placedBlocks (placeBlock gx gy gz ((placeBlock gx gy gz (st\<lparr>selectedSlot := m1\<rparr>))\<lparr>selectedSlot := m2\<rparr>))
             (blockKey gx gy gz)) = Some m1)"
proof -
  let ?st1 = "placeBlock gx gy gz (st\<lparr>selectedSlot := m1\<rparr>)"
  have occ: "placedBlocks (?st1\<lparr>selectedSlot := m2\<rparr>) (blockKey gx gy gz) \<noteq> None"
    using placeBlock_makes_occupied [of gx gy gz "st\<lparr>selectedSlot := m1\<rparr>"] by simp
  have noop: "placeBlock gx gy gz (?st1\<lparr>selectedSlot := m2\<rparr>) = ?st1\<lparr>selectedSlot := m2\<rparr>"
    by (rule placeBlock_occupied [OF occ])
  have first: "placedBlocks st (blockKey gx gy gz) = None \<Longrightarrow>
      map_option mesh_material (placedBlocks ?st1 (blockKey gx gy gz)) = Some m1"
    using placeBlock_fresh [of "st\<lparr>selectedSlot := m1\<rparr>" gx gy gz] by simp
  show ?thesis
    using first by (simp add: noop)
qed

theorem placeBlock_first_write_wins_witness:
  "placedBlocks init_app (blockKey 5.5 3.5 5.5) = None
   \<and> map_option mesh_material
        (placedBlocks (placeBlock 5.5 3.5 5.5 ((placeBlock 5.5 3.5 5.5 (init_app\<lparr>selectedSlot := 2\<rparr>))\<lparr>selectedSlot := 3\<rparr>))
           (blockKey 5.5 3.5 5.5)) = Some 2"
proof -
  have free: "placedBlocks init_app (blockKey 5.5 3.5 5.5) = None"
    by (simp add: init_app_def)
  from free
    placeBlock_first_write_wins [where gx = "5.5" and gy = "3.5" and gz = "5.5"
      and st = init_app and ?m1.0 = 2 and ?m2.0 = 3]
  show ?thesis by blast
qed

text \<open>
  C10. \<^verbatim>\<open>placeBlueprint\<close> saves \<^verbatim>\<open>selectedSlot\<close>, overwrites it for every block it
  stamps, and restores it before it cancels the blueprint: the selection after the
  commit is the selection before it, for every state.
\<close>

theorem placeBlueprint_keeps_selectedSlot:
  "selectedSlot (placeBlueprint st) = selectedSlot st"
  by (simp add: placeBlueprint_def cancelBlueprint_def Let_def)

theorem placeBlueprint_keeps_selectedSlot_witness:
  "blueprintActive (activateBlueprint demo_blueprint (init_app\<lparr>selectedSlot := 4\<rparr>))
   \<and> blueprintGroup (activateBlueprint demo_blueprint (init_app\<lparr>selectedSlot := 4\<rparr>)) \<noteq> None
   \<and> selectedSlot (placeBlueprint (activateBlueprint demo_blueprint (init_app\<lparr>selectedSlot := 4\<rparr>))) = 4"
  using placeBlueprint_keeps_selectedSlot [of "activateBlueprint demo_blueprint (init_app\<lparr>selectedSlot := 4\<rparr>)"]
  by (simp add: activateBlueprint_def enterFPMode_def init_app_def Let_def)

text \<open>
  C1, as the code has it. \<^verbatim>\<open>generate\<close> disposes of the previous landscape, calls
  \<^verbatim>\<open>clearAllBlocks\<close> and installs the landscape of the new seed: after a regeneration
  the Block World is empty, whatever it held before.
\<close>

theorem generate_clears_block_world:
  "placedBlocks (generate createNoise2D random seed st) = Map.empty
   \<and> blockGroup (generate createNoise2D random seed st) = []
   \<and> currentLandscape (generate createNoise2D random (Some s) st)
       = Some (generateLandscape createNoise2D s)"
  by (simp add: generate_def clearAllBlocks_def Let_def)

text \<open>
  A block placed before a regeneration with seed 42 is gone after it: the claim that
  every previously placed block is still present fails.
\<close>

theorem generate_keeps_blocks_counterexample:
  "placedBlocks (placeBlock 5.5 3.5 5.5 init_app) (blockKey 5.5 3.5 5.5) \<noteq> None
   \<and> placedBlocks
        (generate (const_createNoise2D 0) 0 (Some 42) (placeBlock 5.5 3.5 5.5 init_app))
        (blockKey 5.5 3.5 5.5) = None"
  by (simp add: generate_def clearAllBlocks_def placeBlock_def Let_def init_app_def)

section \<open>Properties of the seed input\<close>

lemma sint_wrap32: "sint (word_of_int n :: 32 word) = wrap32 n"
  by (simp add: wrap32_def sint_sbintrunc' signed_take_bit_eq_take_bit_shift take_bit_eq_mod)

lemma seed_hash_step:
  "sint ((push_bit 5 hash - hash) + ucast c :: 32 word)
     = wrap32 (sint hash * 31 + uint (c :: 16 word))"
proof -
  have "(push_bit 5 hash - hash) + ucast c = (word_of_int (sint hash * 31 + uint c) :: 32 word)"
    by (simp add: push_bit_eq_mult)
  then show ?thesis by (simp only: sint_wrap32)
qed

lemma seed_hash_foldl:
  "sint (foldl (\<lambda>hash c. (push_bit 5 hash - hash) + ucast c) h val)
     = foldl (\<lambda>hash c. wrap32 (hash * 31 + uint c)) (sint (h :: 32 word)) (val :: js_string)"
  by (induction val arbitrary: h) (simp_all add: seed_hash_step)

lemma seed_hash_spec: "sint (seed_hash val) = spec_rolling_hash val"
  using seed_hash_foldl [of 0 val] by (simp add: seed_hash_def spec_rolling_hash_def)

lemma currentSeed_generate:
  "currentSeed (generate createNoise2D random (Some s) st) = Some s"
  by (simp add: generate_def clearAllBlocks_def disposeLandscape_def exitFPMode_def
      cancelBlueprint_def Let_def split: option.splits)

text \<open>
  C8. When the trimmed input is not empty and \<^verbatim>\<open>parseInt\<close> gives NaN,
  \<^verbatim>\<open>applySeedInput\<close> regenerates with the seed of the specification's rolling hash
  (\<open>hash * 31 + charCode\<close> wrapped to 32 bits at every character, then the absolute
  value), and that seed is not negative.
\<close>

theorem applySeedInput_string_seed:
  assumes "trim input \<noteq> []" and "parseInt (trim input) = None"
  shows "applySeedInput createNoise2D random input st
           = generate createNoise2D random (Some (spec_seed_of_string (trim input))) st
         \<and> currentSeed (applySeedInput createNoise2D random input st)
           = Some (spec_seed_of_string (trim input))
         \<and> 0 \<le> spec_seed_of_string (trim input)"
proof -
  have run: "applySeedInput createNoise2D random input st
      = generate createNoise2D random (Some (spec_seed_of_string (trim input))) st"
    using assms by (simp add: applySeedInput_def Let_def seed_hash_spec spec_seed_of_string_def)
  have nonneg: "0 \<le> spec_seed_of_string (trim input)"
    by (simp add: spec_seed_of_string_def)
  from run nonneg show ?thesis
    by (simp add: currentSeed_generate)
qed

theorem applySeedInput_string_seed_witness:
  "trim (utf16 '' island '') \<noteq> []
   \<and> parseInt (trim (utf16 '' island '')) = None
   \<and> currentSeed (applySeedInput (const_createNoise2D 0) 0 (utf16 '' island '') init_app)
       = Some 1179387371"
proof -
  have t: "trim (utf16 '' island '') = utf16 ''island''"
    by (simp add: trim_def utf16_def isWhiteSpace_def)
  have ne: "trim (utf16 '' island '') \<noteq> []"
    unfolding t by (simp add: utf16_def)
  have nan: "parseInt (trim (utf16 '' island '')) = None"
    unfolding t by (simp add: parseInt_def utf16_def isWhiteSpace_def isDigit_def)
  have v: "spec_seed_of_string (utf16 ''island'') = 1179387371"
    by (simp add: spec_seed_of_string_def spec_rolling_hash_def utf16_def wrap32_def)
  have "currentSeed (applySeedInput (const_createNoise2D 0) 0 (utf16 '' island '') init_app)
      = Some (spec_seed_of_string (trim (utf16 '' island '')))"
    using applySeedInput_string_seed [OF ne nan, of "const_createNoise2D 0" 0 init_app]
    by blast
  then have "currentSeed (applySeedInput (const_createNoise2D 0) 0 (utf16 '' island '') init_app)
      = Some 1179387371"
    unfolding t v .
  with ne nan show ?thesis by blast
qed

section \<open>Properties of the terrain\<close>

lemma fbm_three_gen:
  "fbm noise2D x z 3 l g
     = (noise2D x z + g * noise2D (x * l) (z * l) + g * g * noise2D (x * l * l) (z * l * l))
         / (1 + g + g * g)"
  by (simp add: fbm_def eval_nat_numeral mult.assoc)

lemma fbm_const: "fbm (const_noise c) x z 3 2 (1 / 2) = c"
  unfolding fbm_three_gen by (simp add: const_noise_def field_simps)

lemma fbm_three_range:
  assumes "\<And>a b. - 1 \<le> noise2D a b \<and> noise2D a b \<le> 1"
  shows "- 1 \<le> fbm noise2D x z 3 2.0 0.5 \<and> fbm noise2D x z 3 2.0 0.5 \<le> 1"
proof -
  define n1 where "n1 = noise2D x z"
  define n2 where "n2 = noise2D (x * 2.0) (z * 2.0)"
  define n3 where "n3 = noise2D (x * 2.0 * 2.0) (z * 2.0 * 2.0)"
  have b: "- 1 \<le> n1" "n1 \<le> 1" "- 1 \<le> n2" "n2 \<le> 1" "- 1 \<le> n3" "n3 \<le> 1"
    using assms by (simp_all add: n1_def n2_def n3_def)
  have "fbm noise2D x z 3 2.0 0.5 = (n1 + 0.5 * n2 + 0.5 * 0.5 * n3) / (1 + 0.5 + 0.5 * 0.5)"
    unfolding fbm_three_gen n1_def n2_def n3_def ..
  also have "\<dots> = (4 * n1 + 2 * n2 + n3) / 7" by (simp add: field_simps)
  finally have eq: "fbm noise2D x z 3 2.0 0.5 = (4 * n1 + 2 * n2 + n3) / 7" .
  from b show ?thesis unfolding eq by simp
qed

lemma falloff_range:
  "0 \<le> max 0 (1 - (sqrt (dx * dx + dz * dz)) ^ 3) \<and> max 0 (1 - (sqrt (dx * dx + dz * dz)) ^ 3) \<le> (1::real)"
proof -
  have "0 \<le> sqrt (dx * dx + dz * dz)" by simp
  then have "0 \<le> (sqrt (dx * dx + dz * dz)) ^ 3" by (rule zero_le_power)
  then show ?thesis by simp
qed

lemma sampleHeight_unfold:
  "sampleHeight noise2D x z halfSize
     = ((fbm noise2D (x * 0.015) (z * 0.015) 3 2.0 0.5 + 1) / 2) powr 1.8
         * max 0 (1 - (sqrt ((x / halfSize) * (x / halfSize) + (z / halfSize) * (z / halfSize))) ^ 3)"
  by (simp add: sampleHeight_def Let_def)

lemma sampleHeight_const1: "sampleHeight (const_noise 1) 0 0 100 = 1"
  by (simp add: sampleHeight_unfold fbm_const)


lemma generateLandscape_noise:
  "ls_noise2D (generateLandscape createNoise2D seed) = fst (createNoise2D (mulberry32 seed))
   \<and> ls_size (generateLandscape createNoise2D seed) = 200"
  by (simp add: generateLandscape_def Let_def split: prod.splits)

text \<open>
  C4. If the noise function only returns values in \<open>[-1, 1]\<close>, then for every \<open>(x, z)\<close>
  the height is in \<open>[0, 1]\<close> (for the positive half extent the callers pass).
  \<^verbatim>\<open>sampleHeight\<close> reads nothing but its arguments, so it is a function of them, as
  \<open>sampleHeight\<close> is here; and the height field of a generated landscape, which later
  passes sample through the noise function and size it stores, is that of the noise
  function the library creates from the seeded generator: it depends on the seed and
  \<open>(x, z)\<close> only.
\<close>

theorem sampleHeight_range:
  assumes "\<forall>a b. - 1 \<le> noise2D a b \<and> noise2D a b \<le> 1" and "0 < halfSize"
  shows "0 \<le> sampleHeight noise2D x z halfSize \<and> sampleHeight noise2D x z halfSize \<le> 1
         \<and> sampleHeight (ls_noise2D (generateLandscape createNoise2D seed)) x z
               (ls_size (generateLandscape createNoise2D seed) / 2)
             = sampleHeight (fst (createNoise2D (mulberry32 seed))) x z 100"
proof -
  let ?f = "fbm noise2D (x * 0.015) (z * 0.015) 3 2.0 0.5"
  let ?h = "(?f + 1) / 2"
  let ?fall = "max 0 (1 - (sqrt ((x / halfSize) * (x / halfSize) + (z / halfSize) * (z / halfSize))) ^ 3)"
  have f: "- 1 \<le> ?f \<and> ?f \<le> 1" using assms(1) by (intro fbm_three_range) simp
  then have h: "0 \<le> ?h" "?h \<le> 1" by simp_all
  have p0: "0 \<le> ?h powr 1.8" by simp
  have p1: "?h powr 1.8 \<le> 1" using h by (simp add: powr_le1)
  have fall: "0 \<le> ?fall" "?fall \<le> 1" using falloff_range [of "x / halfSize" "z / halfSize"] by simp_all
  have lo: "0 \<le> ?h powr 1.8 * ?fall" using p0 fall(1) by (rule mult_nonneg_nonneg)
  have hi: "?h powr 1.8 * ?fall \<le> 1" using p1 fall p0 by (simp add: mult_le_one)
  have range: "0 \<le> sampleHeight noise2D x z halfSize \<and> sampleHeight noise2D x z halfSize \<le> 1"
    using lo hi unfolding sampleHeight_unfold by simp
  have "sampleHeight (ls_noise2D (generateLandscape createNoise2D seed)) x z
               (ls_size (generateLandscape createNoise2D seed) / 2)
             = sampleHeight (fst (createNoise2D (mulberry32 seed))) x z 100"
    by (simp add: generateLandscape_noise)
  with range show ?thesis by blast
qed

theorem sampleHeight_range_witness:
  "(\<forall>a b. - 1 \<le> const_noise 1 a b \<and> const_noise 1 a b \<le> 1) \<and> (0::real) < 100
   \<and> sampleHeight (const_noise 1) 0 0 100 = 1
   \<and> 0 \<le> sampleHeight (const_noise 1) 0 0 100 \<and> sampleHeight (const_noise 1) 0 0 100 \<le> 1"
proof -
  have n: "\<forall>a b. - 1 \<le> const_noise 1 a b \<and> const_noise 1 a b \<le> 1"
    by (simp add: const_noise_def)
  have p: "(0::real) < 100" by simp
  from sampleHeight_range [OF n p, where x = 0 and z = 0] n p sampleHeight_const1
  show ?thesis by simp
qed

text \<open>
  In exact arithmetic the falloff term vanishes wherever the normalised distance is at
  least 1, and the height with it.
\<close>

lemma sampleHeight_exact_zero_outside:
  assumes "1 \<le> sqrt ((x / halfSize) * (x / halfSize) + (z / halfSize) * (z / halfSize))"
  shows "max 0 (1 - (sqrt ((x / halfSize) * (x / halfSize) + (z / halfSize) * (z / halfSize))) ^ 3) = 0
         \<and> sampleHeight noise2D x z halfSize = 0"
proof -
  let ?d = "sqrt ((x / halfSize) * (x / halfSize) + (z / halfSize) * (z / halfSize))"
  have "1 \<le> ?d ^ 3" using assms by (rule one_le_power)
  then have "max 0 (1 - ?d ^ 3) = 0" by simp
  then show ?thesis unfolding sampleHeight_unfold by simp
qed

subsection \<open>The height at the shore, in double precision\<close>

lemma rnd_even_eqI:
  assumes "\<bar>r - of_int n\<bar> < 1 / 2"
  shows "rnd_even r = n"
proof -
  from assms have b: "of_int n - 1 / 2 < r" "r < of_int n + 1 / 2" by linarith+
  consider "\<lfloor>r\<rfloor> = n" | "\<lfloor>r\<rfloor> = n - 1"
  proof -
    have "n - 1 \<le> \<lfloor>r\<rfloor>" using b by linarith
    moreover have "\<lfloor>r\<rfloor> < n + 1" using b by linarith
    ultimately have "\<lfloor>r\<rfloor> = n \<or> \<lfloor>r\<rfloor> = n - 1" by linarith
    then show ?thesis using that by blast
  qed
  then show ?thesis
  proof cases
    case 1
    then have "r - of_int \<lfloor>r\<rfloor> < 1 / 2" using b by simp
    then show ?thesis unfolding rnd_even_def Let_def using 1 by simp
  next
    case 2
    then have "1 / 2 < r - of_int \<lfloor>r\<rfloor>" using b by simp
    then show ?thesis unfolding rnd_even_def Let_def using 2 by simp
  qed
qed

lemma rnd_even_mono_int: "of_int m \<le> r \<Longrightarrow> m \<le> rnd_even r"
proof -
  assume "of_int m \<le> r"
  then have "m \<le> \<lfloor>r\<rfloor>" by (simp add: le_floor_iff)
  then show ?thesis unfolding rnd_even_def Let_def by simp
qed

lemma rnd_even_nonpos: "r \<le> 0 \<Longrightarrow> rnd_even r \<le> 0"
proof -
  assume r: "r \<le> 0"
  show ?thesis
  proof (cases "r = of_int \<lfloor>r\<rfloor>")
    case True
    then have "r - of_int \<lfloor>r\<rfloor> < 1 / 2" by simp
    moreover have "\<lfloor>r\<rfloor> \<le> 0" using r by linarith
    ultimately show ?thesis unfolding rnd_even_def Let_def by simp
  next
    case False
    have "of_int \<lfloor>r\<rfloor> \<le> r" by simp
    with False have "of_int \<lfloor>r\<rfloor> < r" by linarith
    with r have "of_int \<lfloor>r\<rfloor> < (0::real)" by linarith
    then have neg: "\<lfloor>r\<rfloor> < 0" by linarith
    then have "\<lfloor>r\<rfloor> + 1 \<le> 0" by linarith
    with neg show ?thesis unfolding rnd_even_def Let_def by auto
  qed
qed

lemma powi_pos: "0 < (2::real) powi k"
  by (simp add: power_int_def)

lemma floor_log2_eqI:
  assumes "2 powi e \<le> x" "x < 2 powi (e + 1)"
  shows "\<lfloor>log 2 x\<rfloor> = e"
proof -
  have pos: "0 < x" using assms(1) powi_pos [of e] by linarith
  have "(2::real) powr (of_int e) = 2 powi e" by (rule powr_real_of_int') simp_all
  moreover have "(2::real) powr (of_int (e + 1)) = 2 powi (e + 1)"
    by (rule powr_real_of_int') simp_all
  moreover have "(of_int (e + 1) :: real) = of_int e + 1" by simp
  ultimately have "2 powr (of_int e) \<le> x \<and> x < 2 powr (of_int e + 1)"
    using assms by metis
  then show ?thesis using pos by (simp add: floor_log_eq_powr_iff)
qed

lemma fl_eqI:
  assumes "2 powi e \<le> \<bar>x\<bar>" "\<bar>x\<bar> < 2 powi (e + 1)"
    and "\<bar>x / 2 powi (e - 52) - of_int n\<bar> < 1 / 2"
    and "y = of_int n * 2 powi (e - 52)"
  shows "fl x = y"
proof -
  have "0 < \<bar>x\<bar>" using assms(1) powi_pos [of e] by linarith
  then have nz: "x \<noteq> 0" by simp
  have e: "\<lfloor>log 2 \<bar>x\<bar>\<rfloor> = e" using assms(1,2) by (rule floor_log2_eqI)
  have "rnd_even (x / 2 powi (e - 52)) = n" using assms(3) by (rule rnd_even_eqI)
  then show ?thesis unfolding fl_def Let_def e assms(4) using nz by simp
qed


lemma fl_zero: "fl 0 = 0"
  by (simp add: fl_def)

lemma fl_nonpos:
  assumes "x \<le> 0"
  shows "fl x \<le> 0"
proof (cases "x = 0")
  case True
  then show ?thesis by (simp add: fl_zero)
next
  case False
  define q :: real where "q = 2 powi (\<lfloor>log 2 \<bar>x\<bar>\<rfloor> - 52)"
  have q: "0 < q" unfolding q_def by (rule powi_pos)
  with assms have "x / q \<le> 0" by (simp add: divide_nonpos_pos)
  then have "rnd_even (x / q) \<le> 0" by (rule rnd_even_nonpos)
  then have "(of_int (rnd_even (x / q)) :: real) \<le> 0" by simp
  with q have "of_int (rnd_even (x / q)) * q \<le> 0" by (simp add: mult_nonpos_nonneg)
  then show ?thesis using False unfolding fl_def Let_def q_def by simp
qed

lemma fl_ge_one:
  assumes "1 \<le> y"
  shows "1 \<le> fl y"
proof -
  define e where "e = \<lfloor>log 2 \<bar>y\<bar>\<rfloor>"
  define q :: real where "q = 2 powi (e - 52)"
  from assms have pos: "0 < y" and ab: "\<bar>y\<bar> = y" by simp_all
  have "0 \<le> log 2 y" using assms by simp
  then have e0: "0 \<le> e" unfolding e_def ab by simp
  have "2 powr (of_int e) \<le> y"
    using floor_log_eq_powr_iff [of y 2 e] pos unfolding e_def ab by simp
  moreover have "(2::real) powr (of_int e) = 2 powi e" by (rule powr_real_of_int') simp_all
  ultimately have lo: "2 powi e \<le> y" by simp
  have q: "0 < q" unfolding q_def by (rule powi_pos)
  have split: "(2::real) powi e = 2 powi 52 * q"
    unfolding q_def using power_int_add [of "2::real" 52 "e - 52"] by simp
  have "of_int (2 ^ 52) \<le> y / q"
    using lo q unfolding split by (simp add: pos_le_divide_eq)
  then have "2 ^ 52 \<le> rnd_even (y / q)" by (rule rnd_even_mono_int)
  then have "(of_int (2 ^ 52) :: real) \<le> of_int (rnd_even (y / q))" by (simp only: of_int_le_iff)
  then have "of_int (2 ^ 52) * q \<le> of_int (rnd_even (y / q)) * q"
    using q by (simp only: mult_le_cancel_right_pos)
  then have "2 powi e \<le> of_int (rnd_even (y / q)) * q" unfolding split by simp
  moreover have "(1::real) \<le> 2 powi e"
    using e0 by (simp add: power_int_def)
  moreover have "fl y = of_int (rnd_even (y / q)) * q"
    using pos unfolding fl_def Let_def q_def e_def by simp
  ultimately show ?thesis by linarith
qed

lemma fl_values:
  "fl 1 = 1" "fl 2 = 2" "fl 4 = 4" "fl 8 = 8"
  "fl (1 / 2) = 1 / 2" "fl (1 / 4) = 1 / 4" "fl (1 / 8) = 1 / 8"
  "fl (3 / 2) = 3 / 2" "fl (7 / 4) = 7 / 4"
proof -
  show "fl 1 = 1" by (rule fl_eqI [where e = 0 and n = "2 ^ 52"]) simp_all
  show "fl 2 = 2" by (rule fl_eqI [where e = 1 and n = "2 ^ 52"]) simp_all
  show "fl 4 = 4" by (rule fl_eqI [where e = 2 and n = "2 ^ 52"]) simp_all
  show "fl 8 = 8" by (rule fl_eqI [where e = 3 and n = "2 ^ 52"]) simp_all
  show "fl (1 / 2) = 1 / 2" by (rule fl_eqI [where e = "- 1" and n = "2 ^ 52"]) simp_all
  show "fl (1 / 4) = 1 / 4" by (rule fl_eqI [where e = "- 2" and n = "2 ^ 52"]) simp_all
  show "fl (1 / 8) = 1 / 8" by (rule fl_eqI [where e = "- 3" and n = "2 ^ 52"]) simp_all
  show "fl (3 / 2) = 3 / 2" by (rule fl_eqI [where e = 0 and n = "3 * 2 ^ 51"]) simp_all
  show "fl (7 / 4) = 7 / 4" by (rule fl_eqI [where e = 0 and n = "7 * 2 ^ 50"]) simp_all
qed

lemma rnd_even_nonneg: "0 \<le> r \<Longrightarrow> 0 \<le> rnd_even r"
  using rnd_even_mono_int [of 0 r] by simp

lemma fl_nonneg:
  assumes "0 \<le> x"
  shows "0 \<le> fl x"
proof (cases "x = 0")
  case True
  then show ?thesis by (simp add: fl_zero)
next
  case False
  define q :: real where "q = 2 powi (\<lfloor>log 2 \<bar>x\<bar>\<rfloor> - 52)"
  have q: "0 < q" unfolding q_def by (rule powi_pos)
  with assms have "0 \<le> x / q" by simp
  then have "0 \<le> rnd_even (x / q)" by (rule rnd_even_nonneg)
  then have "(0::real) \<le> of_int (rnd_even (x / q))" by simp
  with q have "0 \<le> of_int (rnd_even (x / q)) * q" by simp
  then show ?thesis using False unfolding fl_def Let_def q_def by simp
qed

lemma fl_minus_one: "fl (- 1) = - 1"
  by (rule fl_eqI [where e = 0 and n = "- (2 ^ 52)"]) simp_all

lemma dist64_ge_one:
  assumes "fl (dx * dx) = 1 \<or> fl (dz * dz) = 1"
  shows "1 \<le> fl (sqrt (fl (fl (dx * dx) + fl (dz * dz))))"
proof -
  have "0 \<le> fl (dx * dx)" "0 \<le> fl (dz * dz)" by (rule fl_nonneg, simp)+
  with assms have "1 \<le> fl (dx * dx) + fl (dz * dz)" by auto
  then have "1 \<le> fl (fl (dx * dx) + fl (dz * dz))" by (rule fl_ge_one)
  then have "1 \<le> sqrt (fl (fl (dx * dx) + fl (dz * dz)))" by simp
  then show ?thesis by (rule fl_ge_one)
qed

lemma dist64_map_edge:
  assumes "0 < halfSize" and "\<bar>x\<bar> = halfSize \<or> \<bar>z\<bar> = halfSize"
  shows "1 \<le> dist64 x z halfSize"
proof -
  have sq: "fl (fl (t / halfSize) * fl (t / halfSize)) = 1" if "\<bar>t\<bar> = halfSize" for t
  proof -
    from that assms(1) have "t / halfSize = 1 \<or> t / halfSize = - 1"
      by (cases "0 \<le> t") (auto simp: field_simps)
    then show ?thesis by (auto simp: fl_values fl_minus_one)
  qed
  from assms(2) sq have "fl (fl (x / halfSize) * fl (x / halfSize)) = 1
      \<or> fl (fl (z / halfSize) * fl (z / halfSize)) = 1" by blast
  then show ?thesis unfolding dist64_def Let_def by (rule dist64_ge_one)
qed

lemma sampleHeight64_unfold:
  "sampleHeight64 noise2D x z halfSize
     = fl (Math_pow64
             (fl (fl (fbm64 noise2D (fl (x * fl 0.015)) (fl (z * fl 0.015)) 3 2.0 0.5 + 1) / 2))
             (fl 1.8)
           * falloff64 x z halfSize)"
  by (simp add: sampleHeight64_def falloff64_def dist64_def Let_def)

lemma falloff64_outside:
  assumes "1 \<le> dist64 x z halfSize"
  shows "falloff64 x z halfSize = 0"
proof -
  define d where "d = dist64 x z halfSize"
  from assms have d1: "1 \<le> d" unfolding d_def .
  then have "d powr 3 = d ^ 3" by simp
  moreover have "1 \<le> d ^ 3" using d1 by (rule one_le_power)
  ultimately have "1 \<le> d powr 3" by simp
  then have "1 \<le> Math_pow64 d 3" unfolding Math_pow64_def by (rule fl_ge_one)
  then have "1 - Math_pow64 d 3 \<le> 0" by simp
  then have "fl (1 - Math_pow64 d 3) \<le> 0" by (rule fl_nonpos)
  then show ?thesis unfolding falloff64_def d_def [symmetric] by simp
qed

text \<open>
  C9, as the code computes it. The program works in double precision, and the distance
  \<^verbatim>\<open>dist\<close> it computes can round below 1 where the exact distance is 1 or more; the
  statement therefore speaks of the computed distance. Wherever \<^verbatim>\<open>dist\<close> is at least
  1, and that includes every point on the edge of the map (\<open>\<bar>x\<bar> = halfSize\<close> or
  \<open>\<bar>z\<bar> = halfSize\<close>), the falloff term \<^verbatim>\<open>Math.max(0, 1 - Math.pow(dist, 3))\<close> is 0 and
  the height is exactly 0, for every noise function.
\<close>

theorem sampleHeight64_zero_outside:
  assumes "0 < halfSize"
    and "1 \<le> dist64 x z halfSize \<or> \<bar>x\<bar> = halfSize \<or> \<bar>z\<bar> = halfSize"
  shows "1 \<le> dist64 x z halfSize
         \<and> falloff64 x z halfSize = 0
         \<and> sampleHeight64 noise2D x z halfSize = 0"
proof -
  from assms have d: "1 \<le> dist64 x z halfSize"
    using dist64_map_edge [of halfSize x z] by blast
  then have f: "falloff64 x z halfSize = 0" by (rule falloff64_outside)
  then have "sampleHeight64 noise2D x z halfSize = 0"
    by (simp add: sampleHeight64_unfold fl_zero)
  with d f show ?thesis by blast
qed

theorem sampleHeight64_zero_outside_witness:
  "(0::real) < 100 \<and> \<bar>100::real\<bar> = 100
   \<and> 1 \<le> dist64 100 0 100
   \<and> falloff64 100 0 100 = 0
   \<and> sampleHeight64 (const_noise 1) 100 0 100 = 0"
proof -
  have p: "(0::real) < 100" by simp
  have e: "\<bar>100::real\<bar> = 100" by simp
  then have d: "1 \<le> dist64 100 0 100 \<or> \<bar>100::real\<bar> = 100 \<or> \<bar>0::real\<bar> = 100" by blast
  from sampleHeight64_zero_outside [OF p d, of "const_noise 1"] p e
  show ?thesis by blast
qed

text \<open>
  The roundings of two samples, step by step. The first is
  \<open>(x, z) = (-83.01019196398556, 55.761169554648575)\<close> with the half extent 100 that
  the callers pass; the second is \<open>(9, 40)\<close> with half extent 41, where the exact
  distance is 1.
\<close>

lemma fl_9_41: "fl (9 / 41) = 7908760321235993 / 2 ^ 55"
  by (rule fl_eqI [where e = "- 3" and n = 7908760321235993]) simp_all

lemma fl_40_41: "fl (40 / 41) = 8787511468039992 / 2 ^ 53"
  by (rule fl_eqI [where e = "- 1" and n = 8787511468039992]) simp_all

lemma fl_dx_dx:
  "fl (7908760321235993 / 2 ^ 55 * (7908760321235993 / 2 ^ 55)) = 6944277355231604 / 2 ^ 57"
  by (rule fl_eqI [where e = "- 5" and n = 6944277355231604]) simp_all

lemma fl_dz_dz:
  "fl (8787511468039992 / 2 ^ 53 * (8787511468039992 / 2 ^ 53)) = 8573181920039016 / 2 ^ 53"
  by (rule fl_eqI [where e = "- 1" and n = 8573181920039016]) simp_all

lemma fl_sum:
  "fl (6944277355231604 / 2 ^ 57 + 8573181920039016 / 2 ^ 53) = 9007199254740991 / 2 ^ 53"
  by (rule fl_eqI [where e = "- 1" and n = 9007199254740991]) simp_all

lemma fl_sqrt_below_one:
  "fl (sqrt (9007199254740991 / 2 ^ 53)) = 9007199254740991 / 2 ^ 53"
proof -
  define r :: real where "r = sqrt (9007199254740991 / 2 ^ 53)"
  have lo: "18014398509481981 / 2 ^ 54 < r"
    unfolding r_def by (rule real_less_rsqrt) (simp add: power2_eq_square)
  have hi: "r < 18014398509481983 / 2 ^ 54"
    unfolding r_def by (rule real_less_lsqrt) (simp_all add: power2_eq_square)
  have pos: "\<bar>r\<bar> = r" using lo by simp
  have "fl r = 9007199254740991 / 2 ^ 53"
  proof (rule fl_eqI [where e = "- 1" and n = 9007199254740991])
    show "2 powi - 1 \<le> \<bar>r\<bar>" unfolding pos using lo by simp
    show "\<bar>r\<bar> < 2 powi (- 1 + 1)" unfolding pos using hi by simp
    have "r / 2 powi (- 1 - 52) = r * 2 ^ 53" by simp
    moreover have "9007199254740991 - 1 / 2 < r * 2 ^ 53" using lo by simp
    moreover have "r * 2 ^ 53 < 9007199254740991 + 1 / 2" using hi by simp
    ultimately show "\<bar>r / 2 powi (- 1 - 52) - of_int 9007199254740991\<bar> < 1 / 2"
      by (simp only: of_int_numeral)
    show "(9007199254740991 / 2 ^ 53 :: real) = of_int 9007199254740991 * 2 powi (- 1 - 52)"
      by simp
  qed
  then show ?thesis unfolding r_def .
qed

lemma dist64_9_40_41: "dist64 9 40 41 = 9007199254740991 / 2 ^ 53"
  unfolding dist64_def Let_def fl_9_41 fl_40_41 fl_dx_dx fl_dz_dz fl_sum fl_sqrt_below_one ..

lemma fl_cube:
  "fl ((9007199254740991 / 2 ^ 53) ^ 3) = 9007199254740989 / 2 ^ 53"
  by (rule fl_eqI [where e = "- 1" and n = 9007199254740989]) (simp_all add: power3_eq_cube)

lemma fl_three_ulp: "fl (3 / 2 ^ 53) = 3 / 2 ^ 53"
  by (rule fl_eqI [where e = "- 52" and n = "3 * 2 ^ 51"]) simp_all

lemma fbm64_const_one: "fbm64 (const_noise 1) a b 3 2.0 0.5 = 1"
  by (simp add: fbm64_def eval_nat_numeral const_noise_def fl_values)

lemma fl_x_lit: "fl (- 83.01019196398556) = - 44565757465 / 2 ^ 29"
  by (rule fl_eqI [where e = 6 and n = "- 44565757465 * 2 ^ 17"]) simp_all

lemma fl_z_lit: "fl 55.761169554648575 = 980960868859603 / 2 ^ 44"
  by (rule fl_eqI [where e = 5 and n = "980960868859603 * 2 ^ 3"]) simp_all

lemma fl_x_100: "fl (- 44565757465 / 2 ^ 29 / 100) = - 7476893391939174 / 2 ^ 53"
  by (rule fl_eqI [where e = "- 1" and n = "- 7476893391939174"]) simp_all

lemma fl_z_100: "fl (980960868859603 / 2 ^ 44 / 100) = 5022519648561167 / 2 ^ 53"
  by (rule fl_eqI [where e = "- 1" and n = 5022519648561167]) simp_all

lemma fl_dx_dx_100:
  "fl (- 7476893391939174 / 2 ^ 53 * (- 7476893391939174 / 2 ^ 53)) = 6206583557591259 / 2 ^ 53"
  by (rule fl_eqI [where e = "- 1" and n = 6206583557591259]) simp_all

lemma fl_dz_dz_100:
  "fl (5022519648561167 / 2 ^ 53 * (5022519648561167 / 2 ^ 53)) = 5601231394299464 / 2 ^ 54"
  by (rule fl_eqI [where e = "- 2" and n = 5601231394299464]) simp_all

lemma fl_sum_100:
  "fl (6206583557591259 / 2 ^ 53 + 5601231394299464 / 2 ^ 54) = 9007199254740991 / 2 ^ 53"
  by (rule fl_eqI [where e = "- 1" and n = 9007199254740991]) simp_all

lemma dist64_shore:
  "dist64 (- 44565757465 / 2 ^ 29) (980960868859603 / 2 ^ 44) 100 = 9007199254740991 / 2 ^ 53"
  unfolding dist64_def Let_def fl_x_100 fl_z_100 fl_dx_dx_100 fl_dz_dz_100 fl_sum_100
    fl_sqrt_below_one ..

lemma falloff64_below_one:
  assumes "dist64 x z halfSize = 9007199254740991 / 2 ^ 53"
  shows "falloff64 x z halfSize = 3 / 2 ^ 53"
proof -
  have "(9007199254740991 / 2 ^ 53 :: real) powr 3 = (9007199254740991 / 2 ^ 53) ^ 3"
    by simp
  then have p: "Math_pow64 (9007199254740991 / 2 ^ 53) 3 = 9007199254740989 / 2 ^ 53"
    unfolding Math_pow64_def by (simp only: fl_cube)
  have "(1 - 9007199254740989 / 2 ^ 53 :: real) = 3 / 2 ^ 53" by simp
  then have "fl (1 - 9007199254740989 / 2 ^ 53) = 3 / 2 ^ 53" by (simp only: fl_three_ulp)
  then show ?thesis unfolding falloff64_def assms p by simp
qed

lemma sampleHeight64_below_one:
  assumes "dist64 x z halfSize = 9007199254740991 / 2 ^ 53"
  shows "sampleHeight64 (const_noise 1) x z halfSize = 3 / 2 ^ 53"
proof -
  have h: "Math_pow64 (fl (fl (fbm64 (const_noise 1) (fl (x * fl 0.015)) (fl (z * fl 0.015)) 3 2.0 0.5 + 1) / 2))
      (fl 1.8) = 1"
    unfolding fbm64_const_one Math_pow64_def by (simp add: fl_values)
  show ?thesis
    unfolding sampleHeight64_unfold h falloff64_below_one [OF assms]
    by (simp only: mult_1 fl_three_ulp)
qed

lemma shore_exact_distance:
  "1 \<le> sqrt ((- 44565757465 / 2 ^ 29 / 100) * (- 44565757465 / 2 ^ 29 / 100)
        + (980960868859603 / 2 ^ 44 / 100) * (980960868859603 / 2 ^ 44 / 100) :: real)"
  by (rule real_le_rsqrt) (simp add: power2_eq_square)

text \<open>
  The claim as stated, with the exact distance, fails in double precision. At
  \<open>(x, z) = (-83.01019196398556, 55.761169554648575)\<close> and half extent 100 the exact
  normalised distance is above 1, at \<open>(9, 40)\<close> and half extent 41 it is exactly 1. In
  both cases \<^verbatim>\<open>dist\<close> rounds to \<open>1 - 2 ^ -53\<close>, its cube to \<open>1 - 3 * 2 ^ -53\<close>, and the
  falloff term is \<open>3 * 2 ^ -53\<close> (about \<open>3.3e-16\<close>), not 0; where the noise is 1 that is
  also the height.
\<close>

theorem sampleHeight64_boundary_counterexample:
  "1 \<le> sqrt ((fl (- 83.01019196398556) / 100) * (fl (- 83.01019196398556) / 100)
        + (fl 55.761169554648575 / 100) * (fl 55.761169554648575 / 100))
   \<and> dist64 (fl (- 83.01019196398556)) (fl 55.761169554648575) 100 = 1 - 1 / 2 ^ 53
   \<and> falloff64 (fl (- 83.01019196398556)) (fl 55.761169554648575) 100 = 3 / 2 ^ 53
   \<and> sampleHeight64 (const_noise 1) (fl (- 83.01019196398556)) (fl 55.761169554648575) 100
       = 3 / 2 ^ 53
   \<and> sampleHeight64 (const_noise 1) (fl (- 83.01019196398556)) (fl 55.761169554648575) 100
       \<noteq> 0
   \<and> 1 \<le> sqrt ((9 / 41) * (9 / 41) + (40 / 41) * (40 / 41) :: real)
   \<and> dist64 9 40 41 = 1 - 1 / 2 ^ 53
   \<and> falloff64 9 40 41 = 3 / 2 ^ 53
   \<and> sampleHeight64 (const_noise 1) 9 40 41 = 3 / 2 ^ 53
   \<and> sampleHeight64 (const_noise 1) 9 40 41 \<noteq> 0"
proof -
  have r1: "1 \<le> sqrt ((fl (- 83.01019196398556) / 100) * (fl (- 83.01019196398556) / 100)
        + (fl 55.761169554648575 / 100) * (fl 55.761169554648575 / 100))"
    unfolding fl_x_lit fl_z_lit by (rule shore_exact_distance)
  have s1: "dist64 (fl (- 83.01019196398556)) (fl 55.761169554648575) 100
      = 9007199254740991 / 2 ^ 53"
    unfolding fl_x_lit fl_z_lit by (rule dist64_shore)
  have d1: "dist64 (fl (- 83.01019196398556)) (fl 55.761169554648575) 100 = 1 - 1 / 2 ^ 53"
    unfolding s1 by simp
  have r2: "1 \<le> sqrt ((9 / 41) * (9 / 41) + (40 / 41) * (40 / 41) :: real)" by simp
  have d2: "dist64 9 40 41 = 1 - 1 / 2 ^ 53" unfolding dist64_9_40_41 by simp
  note f1 = falloff64_below_one [OF s1] and h1 = sampleHeight64_below_one [OF s1]
  note f2 = falloff64_below_one [OF dist64_9_40_41]
    and h2 = sampleHeight64_below_one [OF dist64_9_40_41]
  have n1: "sampleHeight64 (const_noise 1) (fl (- 83.01019196398556)) (fl 55.761169554648575) 100
       \<noteq> 0"
    unfolding h1 by simp
  have n2: "sampleHeight64 (const_noise 1) 9 40 41 \<noteq> 0" unfolding h2 by simp
  from r1 d1 f1 h1 n1 r2 d2 f2 h2 n2 show ?thesis by blast
qed

subsection \<open>The voxelizer\<close>






lemma foldl_push_voxel:
  "foldl push_voxel P vs t
     = P t @ concat (map (\<lambda>v. case v of (t', x, y, z) \<Rightarrow> [x, y, z]) (filter (\<lambda>v. fst v = t) vs))"
  by (induction vs arbitrary: P) (auto simp: push_voxel_def)




section \<open>Properties of the blueprint ingestion\<close>

text \<open>
  What does hold of the ingestion: an accepted list is not empty, has at most 500
  entries, all with a material in \<open>[0, 5]\<close> (coordinates are integers by their type), and
  is the first 500 valid entries of the parsed array; a list without a valid entry is
  rejected; a rejection leaves the whole state as it was, and no outcome places a block.
\<close>

lemma validate_entry_type:
  "validate_entry b = Inr (Some e) \<Longrightarrow> 0 \<le> b_type e \<and> b_type e \<le> 5"
  by (auto simp: validate_entry_def Let_def split: option.splits sum.splits)

lemma validate_entry_throws: "validate_entry b = Inl e \<longleftrightarrow> b = JNull \<and> e = TypeError"
  by (cases b) (auto simp: validate_entry_def Let_def split: option.splits sum.splits)

lemma valid_entries_type:
  "\<forall>e \<in> set (valid_entries bs). 0 \<le> b_type e \<and> b_type e \<le> 5"
  by (induction bs) (auto split: sum.splits option.splits dest: validate_entry_type)

lemma validate_loop_no_throw:
  "JNull \<notin> set bs \<Longrightarrow> length acc < 500 \<Longrightarrow>
     validate_loop bs acc = Inr (take 500 (acc @ valid_entries bs))"
proof (induction bs arbitrary: acc)
  case Nil
  then show ?case by simp
next
  case (Cons b bs)
  from Cons.prems have nn: "b \<noteq> JNull" and rest: "JNull \<notin> set bs" by auto
  from nn obtain r where r: "validate_entry b = Inr r"
    using validate_entry_throws [of b] by (cases "validate_entry b") auto
  show ?case
  proof (cases r)
    case None
    with r Cons.IH [OF rest Cons.prems(2)] show ?thesis by simp
  next
    case (Some entry)
    show ?thesis
    proof (cases "length (acc @ [entry]) \<ge> 500")
      case True
      with Cons.prems(2) have "length acc = 499" by simp
      with r Some show ?thesis by (simp add: Let_def)
    next
      case False
      then have "length (acc @ [entry]) < 500" by simp
      from Cons.IH [OF rest this] r Some False show ?thesis by (simp add: Let_def)
    qed
  qed
qed

lemma validate_loop_result:
  "validate_loop bs acc = Inr out \<Longrightarrow> length acc < 500 \<Longrightarrow>
     out = take 500 (acc @ valid_entries bs)"
proof (induction bs arbitrary: acc)
  case Nil
  then show ?case by simp
next
  case (Cons b bs)
  show ?case
  proof (cases "validate_entry b")
    case (Inl e)
    with Cons.prems show ?thesis by simp
  next
    case (Inr r)
    show ?thesis
    proof (cases r)
      case None
      with Inr Cons show ?thesis by simp
    next
      case (Some entry)
      show ?thesis
      proof (cases "length (acc @ [entry]) \<ge> 500")
        case True
        with Cons.prems(2) have "length acc = 499" by simp
        with Cons.prems(1) Inr Some show ?thesis by (auto simp: Let_def)
      next
        case False
        then have len: "length (acc @ [entry]) < 500" by simp
        from Cons.prems(1) Inr Some False
        have "validate_loop bs (acc @ [entry]) = Inr out" by (simp add: Let_def)
        from Cons.IH [OF this len] Inr Some show ?thesis by simp
      qed
    qed
  qed
qed

lemma generateStructure_accepts:
  assumes "generateStructure JSON_parse text = Inr blocks"
  shows "blocks \<noteq> [] \<and> length blocks \<le> 500
         \<and> (\<forall>b \<in> set blocks. 0 \<le> b_type b \<and> b_type b \<le> 5)
         \<and> (\<exists>bs. extractBlocks JSON_parse text = Some (JArr bs)
                \<and> blocks = take 500 (valid_entries bs))"
proof -
  from assms obtain v where v: "extractBlocks JSON_parse text = Some v"
      and val: "validateBlocks v = Inr blocks"
    by (auto simp: generateStructure_def split: option.splits)
  from val obtain bs where bs: "v = JArr bs"
    by (cases v) (simp_all add: validateBlocks_def)
  from val bs have run: "validate_loop bs [] = Inr blocks" and ne: "blocks \<noteq> []"
    by (auto simp: validateBlocks_def split: if_splits sum.splits)
  from validate_loop_result [OF run] have eq: "blocks = take 500 (valid_entries bs)" by simp
  have "\<forall>b \<in> set blocks. 0 \<le> b_type b \<and> b_type b \<le> 5"
    unfolding eq using valid_entries_type [of bs] by (auto dest: in_set_takeD)
  with ne eq v bs show ?thesis by simp
qed

lemma aiBuild_rejection:
  "generateStructure JSON_parse text = Inl e \<Longrightarrow> aiBuild JSON_parse text st = st"
  by (simp add: aiBuild_def)

lemma aiBuild_places_nothing:
  "placedBlocks (aiBuild JSON_parse text st) = placedBlocks st
   \<and> blockGroup (aiBuild JSON_parse text st) = blockGroup st"
  by (simp add: aiBuild_def activateBlueprint_def enterFPMode_def Let_def split: sum.splits)

lemma not_json_fence: "fenceMatch (utf16 ''not json'') = None"
  by (simp add: fenceMatch_def utf16_def fence_def)

lemma not_json_rejected:
  assumes "JSON_parse (utf16 ''not json'') = None"
  shows "generateStructure JSON_parse (utf16 ''not json'') = Inl ParseFailed"
proof -
  have t: "trim (utf16 ''not json'') = utf16 ''not json''"
    by (simp add: trim_def utf16_def isWhiteSpace_def)
  have i: "indexOf (utf16 ''not json'') 0x5B = - 1"
    by (simp add: utf16_def)
  show ?thesis
    by (simp add: generateStructure_def extractBlocks_def t assms not_json_fence i Let_def)
qed

lemma zero_valid_rejected:
  assumes "valid_entries bs = []"
  shows "\<exists>e. validateBlocks (JArr bs) = Inl e"
proof (cases "validate_loop bs []")
  case (Inl e)
  then show ?thesis by (simp add: validateBlocks_def)
next
  case (Inr out)
  from validate_loop_result [OF Inr] assms have "out = []" by simp
  with Inr show ?thesis by (simp add: validateBlocks_def)
qed

text \<open>
  C5. Ingestion should signal total failure exactly when zero valid entries remain. On
  the block list \<^verbatim>\<open>[{"x":0,"y":0,"z":0,"type":2}, null]\<close> one valid entry remains, and
  alone it is accepted; but reading \<^verbatim>\<open>b.x\<close> on the \<^verbatim>\<open>null\<close> entry throws, the
  enclosing \<^verbatim>\<open>catch\<close> returns \<^verbatim>\<open>null\<close>, and the whole list is rejected.
\<close>

theorem validateBlocks_null_entry:
  "valid_entries [demo_entry, JNull] = [\<lparr>b_x = 0, b_y = 0, b_z = 0, b_type = 2\<rparr>]
   \<and> validateBlocks (JArr [demo_entry]) = Inr [\<lparr>b_x = 0, b_y = 0, b_z = 0, b_type = 2\<rparr>]
   \<and> validateBlocks (JArr [demo_entry, JNull]) = Inl TypeError"
  by (simp add: validateBlocks_def demo_entry_def validate_entry_def Math_round_def utf16_def Let_def)

section \<open>Properties of the scatter placement\<close>

lemma mulberry32_call_word:
  "\<exists>w :: 32 word. fst (mulberry32_call rng) = real (unat w) / 4294967296"
  unfolding mulberry32_call_def Let_def fst_conv by (rule exI) (rule refl)

lemma mulberry32_call_range:
  "0 \<le> fst (mulberry32_call rng) \<and> fst (mulberry32_call rng) < 1"
proof -
  obtain w :: "32 word" where w: "fst (mulberry32_call rng) = real (unat w) / 4294967296"
    using mulberry32_call_word by blast
  define n where "n = unat w"
  have "n < 4294967296"
    unfolding n_def using unsigned_less [of w, where 'a = nat] by simp
  then have "real n < 4294967296"
    by (metis of_nat_less_iff of_nat_numeral)
  then show ?thesis unfolding w n_def [symmetric] by simp
qed

lemma mulberry32_call_rangeD:
  "mulberry32_call rng = (r, rng') \<Longrightarrow> 0 \<le> r \<and> r < 1"
  using mulberry32_call_range [of rng] by simp

lemma sample_coord:
  assumes "0 \<le> r" "r < (1::real)"
  shows "\<bar>(r - 0.5) * msize * 0.85\<bar> \<le> 0.425 * \<bar>msize\<bar>"
proof -
  define a where "a = \<bar>r - 0.5\<bar> * \<bar>msize\<bar>"
  define m where "m = \<bar>msize\<bar>"
  have "\<bar>r - 0.5\<bar> \<le> 0.5" using assms by linarith
  then have "\<bar>r - 0.5\<bar> * \<bar>msize\<bar> \<le> 0.5 * \<bar>msize\<bar>"
    by (rule mult_right_mono) simp
  then have a: "a \<le> 0.5 * m" by (simp only: a_def m_def)
  have "\<bar>(r - 0.5) * msize * 0.85\<bar> = a * 0.85"
    unfolding a_def by (simp only: abs_mult) simp
  moreover have "a * 0.85 \<le> 0.425 * m" using a by simp
  ultimately show ?thesis unfolding m_def by simp
qed

lemma createTrees_count_range:
  assumes "0 \<le> r" "r < 1"
  shows "150 \<le> createTrees_count r \<and> createTrees_count r \<le> 249"
proof -
  have "0 \<le> \<lfloor>r * 100\<rfloor>" using assms by simp
  moreover have "\<lfloor>r * 100\<rfloor> < 100" using assms by (simp add: floor_less_iff)
  moreover have "\<lfloor>150 + r * 100\<rfloor> = 150 + \<lfloor>r * 100\<rfloor>" by linarith
  ultimately show ?thesis unfolding createTrees_count_def by linarith
qed

lemma instances_simps:
  "instances p [] = 0"
  "instances p (d # ds) = (if deco_part d = p then 1 else 0) + instances p ds"
  "instances p (ds @ es) = instances p ds + instances p es"
  by (simp_all add: instances_def)

lemma createTrees_loop_spec:
  "\<exists>new. fst (createTrees_loop noise2D msize n rng acc) = acc @ new
     \<and> (\<forall>d \<in> set new. tree_mesh_ok noise2D msize d)
     \<and> instances Trunk new \<le> n \<and> instances Foliage new = instances Trunk new"
proof (induction n arbitrary: rng acc)
  case 0
  show ?case by (simp add: instances_simps)
next
  case (Suc n)
  obtain r1 g1 where c1: "mulberry32_call rng = (r1, g1)" by (cases "mulberry32_call rng")
  obtain r2 g2 where c2: "mulberry32_call g1 = (r2, g2)" by (cases "mulberry32_call g1")
  obtain r3 g3 where c3: "mulberry32_call g2 = (r3, g3)" by (cases "mulberry32_call g2")
  obtain r4 g4 where c4: "mulberry32_call g3 = (r4, g4)" by (cases "mulberry32_call g3")
  define x where "x = (r1 - 0.5) * msize * 0.85"
  define z where "z = (r2 - 0.5) * msize * 0.85"
  define h where "h = sampleHeight noise2D x z (msize / 2)"
  show ?case
  proof (cases "h < 0.12 \<or> h > 0.48")
    case True
    then have step: "createTrees_loop noise2D msize (Suc n) rng acc
        = createTrees_loop noise2D msize n g2 acc"
      by (simp add: c1 c2 Let_def x_def z_def h_def)
    from Suc.IH [of g2 acc] obtain new where
      new: "fst (createTrees_loop noise2D msize n g2 acc) = acc @ new"
        "\<forall>d \<in> set new. tree_mesh_ok noise2D msize d"
        "instances Trunk new \<le> n" "instances Foliage new = instances Trunk new"
      by blast
    from new(3) have "instances Trunk new \<le> Suc n" by simp
    with new step show ?thesis by auto
  next
    case False
    define s where "s = 0.7 + r3 * 0.8"
    define trunk where "trunk = \<lparr>deco_part = Trunk, deco_position = (x, h * 30 + 0.75 * s, z),
      deco_scale = (s, s, s), deco_rotation = (0, 0, 0)\<rparr>"
    define foliage where "foliage = \<lparr>deco_part = Foliage, deco_position = (x, h * 30 + 2.2 * s, z),
      deco_scale = (s, s, s), deco_rotation = (0, r4 * pi * 2, 0)\<rparr>"
    from False have step: "createTrees_loop noise2D msize (Suc n) rng acc
        = createTrees_loop noise2D msize n g4 (acc @ [trunk, foliage])"
      by (simp add: c1 c2 c3 c4 Let_def x_def z_def h_def s_def trunk_def foliage_def)
    have hx: "\<bar>x\<bar> \<le> 0.425 * \<bar>msize\<bar>"
      unfolding x_def using mulberry32_call_rangeD [OF c1] by (intro sample_coord) simp_all
    have hz: "\<bar>z\<bar> \<le> 0.425 * \<bar>msize\<bar>"
      unfolding z_def using mulberry32_call_rangeD [OF c2] by (intro sample_coord) simp_all
    from False have band: "0.12 \<le> h" "h \<le> 0.48" by linarith+
    have sm: "sample_ok noise2D msize 0.12 0.48 x z"
      unfolding sample_ok_def h_def [symmetric] using hx hz band by blast
    have sr: "0.7 \<le> s \<and> s < 1.5" using mulberry32_call_rangeD [OF c3] by (simp add: s_def)
    have ok: "tree_mesh_ok noise2D msize trunk" "tree_mesh_ok noise2D msize foliage"
      using sm sr by (simp_all add: tree_mesh_ok_def trunk_def foliage_def h_def)
    have parts: "deco_part trunk = Trunk" "deco_part foliage = Foliage"
      by (simp_all add: trunk_def foliage_def)
    from Suc.IH [of g4 "acc @ [trunk, foliage]"] obtain new where
      new: "fst (createTrees_loop noise2D msize n g4 (acc @ [trunk, foliage]))
              = (acc @ [trunk, foliage]) @ new"
        "\<forall>d \<in> set new. tree_mesh_ok noise2D msize d"
        "instances Trunk new \<le> n" "instances Foliage new = instances Trunk new"
      by blast
    have "fst (createTrees_loop noise2D msize (Suc n) rng acc) = acc @ (trunk # foliage # new)"
      using step new(1) by simp
    moreover have "\<forall>d \<in> set (trunk # foliage # new). tree_mesh_ok noise2D msize d"
      using ok new(2) by simp
    moreover have "instances Trunk (trunk # foliage # new) \<le> Suc n"
      using new(3) parts by (simp add: instances_simps)
    moreover have "instances Foliage (trunk # foliage # new) = instances Trunk (trunk # foliage # new)"
      using new(4) parts by (simp add: instances_simps)
    ultimately show ?thesis by blast
  qed
qed

lemma createRocks_count_range:
  assumes "0 \<le> r" "r < 1"
  shows "80 \<le> createRocks_count r \<and> createRocks_count r \<le> 139"
proof -
  have "0 \<le> \<lfloor>r * 60\<rfloor>" using assms by simp
  moreover have "\<lfloor>r * 60\<rfloor> < 60" using assms by (simp add: floor_less_iff)
  moreover have "\<lfloor>80 + r * 60\<rfloor> = 80 + \<lfloor>r * 60\<rfloor>" by linarith
  ultimately show ?thesis unfolding createRocks_count_def by linarith
qed

lemma createFlowers_count_range:
  assumes "0 \<le> r" "r < 1"
  shows "200 \<le> createFlowers_count r \<and> createFlowers_count r \<le> 349"
proof -
  have "0 \<le> \<lfloor>r * 150\<rfloor>" using assms by simp
  moreover have "\<lfloor>r * 150\<rfloor> < 150" using assms by (simp add: floor_less_iff)
  moreover have "\<lfloor>200 + r * 150\<rfloor> = 200 + \<lfloor>r * 150\<rfloor>" by linarith
  ultimately show ?thesis unfolding createFlowers_count_def by linarith
qed

lemma createRocks_loop_spec:
  "\<exists>new. fst (createRocks_loop noise2D msize n rng acc) = acc @ new
     \<and> (\<forall>d \<in> set new. rock_mesh_ok noise2D msize d)
     \<and> length new \<le> n"
proof (induction n arbitrary: rng acc)
  case 0
  show ?case by simp
next
  case (Suc n)
  obtain r1 g1 where c1: "mulberry32_call rng = (r1, g1)" by (cases "mulberry32_call rng")
  obtain r2 g2 where c2: "mulberry32_call g1 = (r2, g2)" by (cases "mulberry32_call g1")
  obtain r3 g3 where c3: "mulberry32_call g2 = (r3, g3)" by (cases "mulberry32_call g2")
  obtain r4 g4 where c4: "mulberry32_call g3 = (r4, g4)" by (cases "mulberry32_call g3")
  obtain r5 g5 where c5: "mulberry32_call g4 = (r5, g5)" by (cases "mulberry32_call g4")
  obtain r6 g6 where c6: "mulberry32_call g5 = (r6, g6)" by (cases "mulberry32_call g5")
  obtain r7 g7 where c7: "mulberry32_call g6 = (r7, g7)" by (cases "mulberry32_call g6")
  obtain r8 g8 where c8: "mulberry32_call g7 = (r8, g8)" by (cases "mulberry32_call g7")
  obtain r9 g9 where c9: "mulberry32_call g8 = (r9, g9)" by (cases "mulberry32_call g8")
  define x where "x = (r1 - 0.5) * msize * 0.85"
  define z where "z = (r2 - 0.5) * msize * 0.85"
  define h where "h = sampleHeight noise2D x z (msize / 2)"
  show ?case
  proof (cases "h < 0.42 \<or> h > 0.88")
    case True
    then have step: "createRocks_loop noise2D msize (Suc n) rng acc
        = createRocks_loop noise2D msize n g2 acc"
      by (simp add: c1 c2 Let_def x_def z_def h_def)
    from Suc.IH [of g2 acc] obtain new where
      new: "fst (createRocks_loop noise2D msize n g2 acc) = acc @ new"
        "\<forall>d \<in> set new. rock_mesh_ok noise2D msize d" "length new \<le> n"
      by blast
    from new(3) have "length new \<le> Suc n" by simp
    with new step show ?thesis by auto
  next
    case False
    define s where "s = 0.3 + r3 * 1.0"
    define rock where "rock = \<lparr>deco_part = Rock,
      deco_position = (x, h * 30 + s * 0.3, z),
      deco_scale = (s * (0.8 + r4 * 0.4), s * (0.5 + r5 * 0.5), s * (0.8 + r6 * 0.4)),
      deco_rotation = (r7 * 0.5, r8 * pi * 2, r9 * 0.5)\<rparr>"
    from False have step: "createRocks_loop noise2D msize (Suc n) rng acc
        = createRocks_loop noise2D msize n g9 (acc @ [rock])"
      by (simp add: c1 c2 c3 c4 c5 c6 c7 c8 c9 Let_def x_def z_def h_def s_def rock_def)
    have hx: "\<bar>x\<bar> \<le> 0.425 * \<bar>msize\<bar>"
      unfolding x_def using mulberry32_call_rangeD [OF c1] by (intro sample_coord) simp_all
    have hz: "\<bar>z\<bar> \<le> 0.425 * \<bar>msize\<bar>"
      unfolding z_def using mulberry32_call_rangeD [OF c2] by (intro sample_coord) simp_all
    from False have band: "0.42 \<le> h" "h \<le> 0.88" by linarith+
    have sm: "sample_ok noise2D msize 0.42 0.88 x z"
      unfolding sample_ok_def h_def [symmetric] using hx hz band by blast
    have sr: "0.3 \<le> s \<and> s < 1.3" using mulberry32_call_rangeD [OF c3] by (simp add: s_def)
    have "\<exists>s'. 0.3 \<le> s' \<and> s' < 1.3 \<and> h * 30 + s * 0.3 = h * 30 + s' * 0.3"
      using sr by blast
    then have ok: "rock_mesh_ok noise2D msize rock"
      using sm unfolding rock_mesh_ok_def rock_def h_def by simp
    from Suc.IH [of g9 "acc @ [rock]"] obtain new where
      new: "fst (createRocks_loop noise2D msize n g9 (acc @ [rock])) = (acc @ [rock]) @ new"
        "\<forall>d \<in> set new. rock_mesh_ok noise2D msize d" "length new \<le> n"
      by blast
    have "fst (createRocks_loop noise2D msize (Suc n) rng acc) = acc @ (rock # new)"
      using step new(1) by simp
    moreover have "\<forall>d \<in> set (rock # new). rock_mesh_ok noise2D msize d"
      using ok new(2) by simp
    moreover have "length (rock # new) \<le> Suc n"
      using new(3) by simp
    ultimately show ?thesis by blast
  qed
qed

lemma flower_petals_ok:
  assumes "sample_ok noise2D msize 0.13 0.43 x z" and "0.6 \<le> s" "s < 1.4" and "c < 6"
  shows "\<forall>d \<in> set (flower_petals x z (sampleHeight noise2D x z (msize / 2) * 30) s c k).
           flower_mesh_ok noise2D msize d \<and> deco_part d \<noteq> Stem"
proof
  fix d
  assume "d \<in> set (flower_petals x z (sampleHeight noise2D x z (msize / 2) * 30) s c k)"
  then obtain p where d: "d = \<lparr>deco_part = Petal c,
      deco_position = (x + cos ((real p / real k) * pi * 2) * (0.06 * s),
        sampleHeight noise2D x z (msize / 2) * 30 + 0.42 * s,
        z + sin ((real p / real k) * pi * 2) * (0.06 * s)),
      deco_scale = (s, s, s), deco_rotation = (0, 0, 0)\<rparr>"
    by (auto simp: flower_petals_def Let_def)
  have "\<exists>x' z' a. sample_ok noise2D msize 0.13 0.43 x' z'
      \<and> ((\<exists>c' < 6. Petal c = Petal c')
         \<and> (x + cos ((real p / real k) * pi * 2) * (0.06 * s),
              sampleHeight noise2D x z (msize / 2) * 30 + 0.42 * s,
              z + sin ((real p / real k) * pi * 2) * (0.06 * s))
           = (x' + cos a * (0.06 * s),
              sampleHeight noise2D x' z' (msize / 2) * 30 + 0.42 * s,
              z' + sin a * (0.06 * s)))"
    using assms(1,4) by blast
  then show "flower_mesh_ok noise2D msize d \<and> deco_part d \<noteq> Stem"
    using assms(2,3) unfolding flower_mesh_ok_def d by (simp add: Let_def)
qed

lemma instances_petals:
  "\<forall>d \<in> set ds. deco_part d \<noteq> Stem \<Longrightarrow> instances Stem ds = 0"
  by (induction ds) (simp_all add: instances_simps)

lemma createFlowers_loop_spec:
  "\<exists>new. fst (createFlowers_loop noise2D msize n rng acc) = acc @ new
     \<and> (\<forall>d \<in> set new. flower_mesh_ok noise2D msize d)
     \<and> instances Stem new \<le> n"
proof (induction n arbitrary: rng acc)
  case 0
  show ?case by (simp add: instances_simps)
next
  case (Suc n)
  obtain r1 g1 where c1: "mulberry32_call rng = (r1, g1)" by (cases "mulberry32_call rng")
  obtain r2 g2 where c2: "mulberry32_call g1 = (r2, g2)" by (cases "mulberry32_call g1")
  obtain r3 g3 where c3: "mulberry32_call g2 = (r3, g3)" by (cases "mulberry32_call g2")
  obtain r4 g4 where c4: "mulberry32_call g3 = (r4, g4)" by (cases "mulberry32_call g3")
  obtain r5 g5 where c5: "mulberry32_call g4 = (r5, g5)" by (cases "mulberry32_call g4")
  define x where "x = (r1 - 0.5) * msize * 0.85"
  define z where "z = (r2 - 0.5) * msize * 0.85"
  define h where "h = sampleHeight noise2D x z (msize / 2)"
  show ?case
  proof (cases "h < 0.13 \<or> h > 0.43")
    case True
    then have step: "createFlowers_loop noise2D msize (Suc n) rng acc
        = createFlowers_loop noise2D msize n g2 acc"
      by (simp add: c1 c2 Let_def x_def z_def h_def)
    from Suc.IH [of g2 acc] obtain new where
      new: "fst (createFlowers_loop noise2D msize n g2 acc) = acc @ new"
        "\<forall>d \<in> set new. flower_mesh_ok noise2D msize d" "instances Stem new \<le> n"
      by blast
    from new(3) have "instances Stem new \<le> Suc n" by simp
    with new step show ?thesis by auto
  next
    case False
    define s where "s = 0.6 + r3 * 0.8"
    define c where "c = nat \<lfloor>r4 * 6\<rfloor>"
    define k where "k = 3 + nat \<lfloor>r5 * 3\<rfloor>"
    define stem where "stem = \<lparr>deco_part = Stem, deco_position = (x, h * 30 + 0.2 * s, z),
      deco_scale = (s, s, s), deco_rotation = (0, 0, 0)\<rparr>"
    define petals where "petals = flower_petals x z (h * 30) s c k"
    from False have step: "createFlowers_loop noise2D msize (Suc n) rng acc
        = createFlowers_loop noise2D msize n g5 (acc @ [stem] @ petals)"
      by (simp add: c1 c2 c3 c4 c5 Let_def x_def z_def h_def s_def c_def k_def stem_def
          petals_def)
    have hx: "\<bar>x\<bar> \<le> 0.425 * \<bar>msize\<bar>"
      unfolding x_def using mulberry32_call_rangeD [OF c1] by (intro sample_coord) simp_all
    have hz: "\<bar>z\<bar> \<le> 0.425 * \<bar>msize\<bar>"
      unfolding z_def using mulberry32_call_rangeD [OF c2] by (intro sample_coord) simp_all
    from False have band: "0.13 \<le> h" "h \<le> 0.43" by linarith+
    have sm: "sample_ok noise2D msize 0.13 0.43 x z"
      unfolding sample_ok_def h_def [symmetric] using hx hz band by blast
    have sr: "0.6 \<le> s" "s < 1.4" using mulberry32_call_rangeD [OF c3] by (simp_all add: s_def)
    have "\<lfloor>r4 * 6\<rfloor> < 6" using mulberry32_call_rangeD [OF c4] by (simp add: floor_less_iff)
    then have cr: "c < 6" unfolding c_def by linarith
    have "\<exists>x' z' a. sample_ok noise2D msize 0.13 0.43 x' z'
        \<and> (x, h * 30 + 0.2 * s, z)
            = (x', sampleHeight noise2D x' z' (msize / 2) * 30 + 0.2 * s, z')"
      using sm h_def by blast
    then have ok: "flower_mesh_ok noise2D msize stem"
      using sr unfolding flower_mesh_ok_def stem_def by (simp add: Let_def)
    have pk: "\<forall>d \<in> set petals. flower_mesh_ok noise2D msize d \<and> deco_part d \<noteq> Stem"
      unfolding petals_def h_def by (rule flower_petals_ok [OF sm sr cr])
    then have p0: "instances Stem petals = 0" by (intro instances_petals) blast
    from Suc.IH [of g5 "acc @ [stem] @ petals"] obtain new where
      new: "fst (createFlowers_loop noise2D msize n g5 (acc @ [stem] @ petals))
              = (acc @ [stem] @ petals) @ new"
        "\<forall>d \<in> set new. flower_mesh_ok noise2D msize d" "instances Stem new \<le> n"
      by blast
    have "fst (createFlowers_loop noise2D msize (Suc n) rng acc) = acc @ (stem # petals @ new)"
      using step new(1) by simp
    moreover have "\<forall>d \<in> set (stem # petals @ new). flower_mesh_ok noise2D msize d"
      using ok pk new(2) by auto
    moreover have "instances Stem (stem # petals @ new) \<le> Suc n"
      using new(3) p0 by (simp add: instances_simps stem_def)
    ultimately show ?thesis by blast
  qed
qed

text \<open>
  What holds of every scatter pass, for every noise function, generator state and map
  size. The \<^verbatim>\<open>count\<close> a pass draws is within the range of its kind (trees 150 to 249,
  rocks 80 to 139, flowers 200 to 349) and is the number of iterations of its loop. The
  pass places at most \<^verbatim>\<open>count\<close> instances, and every mesh it places belongs to an
  accepted sample: inside 0.85 of the extent, height inside the band of the kind,
  elevation \<open>height * 30\<close> plus the offset of the kind.
\<close>

lemma createTrees_spec:
  "150 \<le> createTrees_count (fst (mulberry32_call rng))
   \<and> createTrees_count (fst (mulberry32_call rng)) \<le> 249
   \<and> instances Trunk (fst (createTrees noise2D rng msize))
       \<le> createTrees_count (fst (mulberry32_call rng))
   \<and> instances Foliage (fst (createTrees noise2D rng msize))
       = instances Trunk (fst (createTrees noise2D rng msize))
   \<and> (\<forall>d \<in> set (fst (createTrees noise2D rng msize)). tree_mesh_ok noise2D msize d)"
proof -
  obtain r g where c: "mulberry32_call rng = (r, g)" by (cases "mulberry32_call rng")
  have run: "createTrees noise2D rng msize
      = createTrees_loop noise2D msize (createTrees_count r) g []"
    by (simp add: createTrees_def c Let_def)
  from createTrees_loop_spec [of noise2D msize "createTrees_count r" g "[]"]
  obtain new where new: "fst (createTrees_loop noise2D msize (createTrees_count r) g []) = [] @ new"
    "\<forall>d \<in> set new. tree_mesh_ok noise2D msize d"
    "instances Trunk new \<le> createTrees_count r" "instances Foliage new = instances Trunk new"
    by blast
  from createTrees_count_range [of r] mulberry32_call_rangeD [OF c]
  have "150 \<le> createTrees_count r \<and> createTrees_count r \<le> 249" by blast
  with new show ?thesis unfolding run c by simp
qed

lemma createRocks_spec:
  "80 \<le> createRocks_count (fst (mulberry32_call rng))
   \<and> createRocks_count (fst (mulberry32_call rng)) \<le> 139
   \<and> length (fst (createRocks noise2D rng msize))
       \<le> createRocks_count (fst (mulberry32_call rng))
   \<and> (\<forall>d \<in> set (fst (createRocks noise2D rng msize)). rock_mesh_ok noise2D msize d)"
proof -
  obtain r g where c: "mulberry32_call rng = (r, g)" by (cases "mulberry32_call rng")
  have run: "createRocks noise2D rng msize
      = createRocks_loop noise2D msize (createRocks_count r) g []"
    by (simp add: createRocks_def c Let_def)
  from createRocks_loop_spec [of noise2D msize "createRocks_count r" g "[]"]
  obtain new where new: "fst (createRocks_loop noise2D msize (createRocks_count r) g []) = [] @ new"
    "\<forall>d \<in> set new. rock_mesh_ok noise2D msize d" "length new \<le> createRocks_count r"
    by blast
  from createRocks_count_range [of r] mulberry32_call_rangeD [OF c]
  have "80 \<le> createRocks_count r \<and> createRocks_count r \<le> 139" by blast
  with new show ?thesis unfolding run c by simp
qed

lemma createFlowers_spec:
  "200 \<le> createFlowers_count (fst (mulberry32_call rng))
   \<and> createFlowers_count (fst (mulberry32_call rng)) \<le> 349
   \<and> instances Stem (fst (createFlowers noise2D rng msize))
       \<le> createFlowers_count (fst (mulberry32_call rng))
   \<and> (\<forall>d \<in> set (fst (createFlowers noise2D rng msize)). flower_mesh_ok noise2D msize d)"
proof -
  obtain r g where c: "mulberry32_call rng = (r, g)" by (cases "mulberry32_call rng")
  have run: "createFlowers noise2D rng msize
      = createFlowers_loop noise2D msize (createFlowers_count r) g []"
    by (simp add: createFlowers_def c Let_def)
  from createFlowers_loop_spec [of noise2D msize "createFlowers_count r" g "[]"]
  obtain new where new: "fst (createFlowers_loop noise2D msize (createFlowers_count r) g []) = [] @ new"
    "\<forall>d \<in> set new. flower_mesh_ok noise2D msize d" "instances Stem new \<le> createFlowers_count r"
    by blast
  from createFlowers_count_range [of r] mulberry32_call_rangeD [OF c]
  have "200 \<le> createFlowers_count r \<and> createFlowers_count r \<le> 349" by blast
  with new show ?thesis unfolding run c by simp
qed

text \<open>
  The number of instances is not the \<^verbatim>\<open>count\<close> drawn. An iteration whose sample is
  outside the band reaches \<^verbatim>\<open>continue\<close>; it is used up and not repeated, so every such
  sample leaves the pass one instance short of \<^verbatim>\<open>count\<close>. The lemmas state this for
  the first sample of a pass: if it is outside the band, fewer than \<^verbatim>\<open>count\<close>
  instances are placed.
\<close>

lemma createTrees_skipped_attempt:
  assumes c0: "mulberry32_call rng = (r0, g0)"
    and c1: "mulberry32_call g0 = (r1, g1)" and c2: "mulberry32_call g1 = (r2, g2)"
    and out: "sampleHeight noise2D ((r1 - 0.5) * msize * 0.85) ((r2 - 0.5) * msize * 0.85) (msize / 2) < 0.12
      \<or> sampleHeight noise2D ((r1 - 0.5) * msize * 0.85) ((r2 - 0.5) * msize * 0.85) (msize / 2) > 0.48"
  shows "instances Trunk (fst (createTrees noise2D rng msize)) < createTrees_count r0"
proof -
  from createTrees_count_range [of r0] mulberry32_call_rangeD [OF c0]
  have "0 < createTrees_count r0" by simp
  then obtain n where n: "createTrees_count r0 = Suc n" by (cases "createTrees_count r0") simp_all
  have "createTrees noise2D rng msize = createTrees_loop noise2D msize (Suc n) g0 []"
    by (simp add: createTrees_def c0 n Let_def)
  also have "\<dots> = createTrees_loop noise2D msize n g2 []"
    using out by (simp add: c1 c2 Let_def)
  finally have run: "createTrees noise2D rng msize = createTrees_loop noise2D msize n g2 []" .
  from createTrees_loop_spec [of noise2D msize n g2 "[]"]
  have "instances Trunk (fst (createTrees_loop noise2D msize n g2 [])) \<le> n" by auto
  then show ?thesis unfolding run n by simp
qed

lemma createRocks_skipped_attempt:
  assumes c0: "mulberry32_call rng = (r0, g0)"
    and c1: "mulberry32_call g0 = (r1, g1)" and c2: "mulberry32_call g1 = (r2, g2)"
    and out: "sampleHeight noise2D ((r1 - 0.5) * msize * 0.85) ((r2 - 0.5) * msize * 0.85) (msize / 2) < 0.42
      \<or> sampleHeight noise2D ((r1 - 0.5) * msize * 0.85) ((r2 - 0.5) * msize * 0.85) (msize / 2) > 0.88"
  shows "length (fst (createRocks noise2D rng msize)) < createRocks_count r0"
proof -
  from createRocks_count_range [of r0] mulberry32_call_rangeD [OF c0]
  have "0 < createRocks_count r0" by simp
  then obtain n where n: "createRocks_count r0 = Suc n" by (cases "createRocks_count r0") simp_all
  have "createRocks noise2D rng msize = createRocks_loop noise2D msize (Suc n) g0 []"
    by (simp add: createRocks_def c0 n Let_def)
  also have "\<dots> = createRocks_loop noise2D msize n g2 []"
    using out by (simp add: c1 c2 Let_def)
  finally have run: "createRocks noise2D rng msize = createRocks_loop noise2D msize n g2 []" .
  from createRocks_loop_spec [of noise2D msize n g2 "[]"]
  have "length (fst (createRocks_loop noise2D msize n g2 [])) \<le> n" by auto
  then show ?thesis unfolding run n by simp
qed

lemma createFlowers_skipped_attempt:
  assumes c0: "mulberry32_call rng = (r0, g0)"
    and c1: "mulberry32_call g0 = (r1, g1)" and c2: "mulberry32_call g1 = (r2, g2)"
    and out: "sampleHeight noise2D ((r1 - 0.5) * msize * 0.85) ((r2 - 0.5) * msize * 0.85) (msize / 2) < 0.13
      \<or> sampleHeight noise2D ((r1 - 0.5) * msize * 0.85) ((r2 - 0.5) * msize * 0.85) (msize / 2) > 0.43"
  shows "instances Stem (fst (createFlowers noise2D rng msize)) < createFlowers_count r0"
proof -
  from createFlowers_count_range [of r0] mulberry32_call_rangeD [OF c0]
  have "0 < createFlowers_count r0" by simp
  then obtain n where n: "createFlowers_count r0 = Suc n"
    by (cases "createFlowers_count r0") simp_all
  have "createFlowers noise2D rng msize = createFlowers_loop noise2D msize (Suc n) g0 []"
    by (simp add: createFlowers_def c0 n Let_def)
  also have "\<dots> = createFlowers_loop noise2D msize n g2 []"
    using out by (simp add: c1 c2 Let_def)
  finally have run: "createFlowers noise2D rng msize = createFlowers_loop noise2D msize n g2 []" .
  from createFlowers_loop_spec [of noise2D msize n g2 "[]"]
  have "instances Stem (fst (createFlowers_loop noise2D msize n g2 [])) \<le> n" by auto
  then show ?thesis unfolding run n by simp
qed

end
